theory Spec2Isabelle
  imports Main "HOL-Library.Word"
begin

unbundle bit_operations_syntax

section \<open>Machine types\<close>

text \<open>
  \<^verbatim>\<open>binutils_tools.cpp\<close> keeps every address in an \<^verbatim>\<open>unsigned long\<close> and hands it
  to the call VM as a pointer, on the 32-bit x86 targets whose conventions (cdecl, stdcall,
  thiscall) it dispatches. An address and an \<^verbatim>\<open>unsigned long\<close> are therefore 32-bit
  words, an \<^verbatim>\<open>int\<close> is a 32-bit word read with \<open>sint\<close>, and arithmetic wraps.
\<close>

type_synonym byte = "8 word"
type_synonym ulong = "32 word"
type_synonym cint = "32 word"

text \<open>The terminator of a C string. A \<open>string\<close> holds the characters before it.\<close>

definition NUL :: char where
  "NUL = CHR 0x00"

section \<open>Errors\<close>

text \<open>
  Every \<^verbatim>\<open>BOOST_RAISE_EXCEPTION\<close> of the source is one constructor, named after the spec's
  taxonomy:
  \<^item> \<open>NullPointerError\<close>: ValueError "Pointer is NULL." / "Function pointer is NULL."
  \<^item> \<open>UnsupportedParameterTypeError\<close>: ValueError "Unknown parameter type."
  \<^item> \<open>ArgumentCountError\<close>: ValueError "String parameter count does not equal with length of tuple."
  \<^item> \<open>MalformedSignatureError\<close>: ValueError "String parameter has no return type."
  \<^item> \<open>UnsupportedReturnTypeError\<close>: TypeError "Unknown return type."
  \<^item> \<open>NotHookedError\<close>: ValueError "Function was not hooked."
  \<^item> \<open>AllocationSizeUnavailableError\<close>: ValueError "Unable to retrieve size of address."
  \<^item> \<open>BufferOverflowError\<close>: ValueError "String exceeds size of memory block."

  Two more are raised by the embedding runtime inside the dispatcher: \<open>IndexError\<close> by
  \<^verbatim>\<open>args[pos]\<close> when \<^verbatim>\<open>pos\<close> is not an index of the argument sequence, and
  \<open>ConversionError\<close> by \<^verbatim>\<open>extract<T>(arg)\<close> when the argument does not hold a \<^verbatim>\<open>T\<close>.

  These are all the ways the modelled functions fail: every \<open>Inl\<close> of the model is an
  exception of the program.
\<close>

datatype error =
    NullPointerError
  | UnsupportedParameterTypeError
  | ArgumentCountError
  | MalformedSignatureError
  | UnsupportedReturnTypeError
  | NotHookedError
  | AllocationSizeUnavailableError
  | BufferOverflowError
  | IndexError
  | ConversionError

section \<open>Dynamically typed values\<close>

text \<open>
  Modelled from the spec: the embedding runtime's \<^verbatim>\<open>object\<close> type is not among the
  sources. The spec's data model makes it a tagged union holding a bool, an integer of
  width 8/16/32/64 (signed or unsigned), a float32, a float64, a raw address or a
  C-style string, or nothing. Floating-point payloads are kept as their bit patterns
  (nothing here computes with them), a C-style string as the address of its first
  character.
\<close>

datatype DynamicValue =
    Empty
  | VBool bool
  | VChar "8 word"
  | VUChar "8 word"
  | VShort "16 word"
  | VUShort "16 word"
  | VInt "32 word"
  | VUInt "32 word"
  | VLong "32 word"
  | VULong "32 word"
  | VLongLong "64 word"
  | VULongLong "64 word"
  | VFloat "32 word"
  | VDouble "64 word"
  | VPointer ulong
  | VString ulong

text \<open>
  Modelled from the spec: \<^verbatim>\<open>extract<T>(arg)\<close> is the embedding runtime's conversion of
  an argument "to the matching native width/type"; it yields the payload of a value that
  holds a \<^verbatim>\<open>T\<close> and raises otherwise. \<^verbatim>\<open>ExtractPyPtr\<close> (of
  \<^verbatim>\<open>binutils_macros.h\<close>, not among the sources) resolves a pointer argument to its
  address.
\<close>

definition extract_bool :: "DynamicValue \<Rightarrow> error + bool" where
  "extract_bool arg = (case arg of VBool x \<Rightarrow> Inr x | _ \<Rightarrow> Inl ConversionError)"

definition extract_char :: "DynamicValue \<Rightarrow> error + 8 word" where
  "extract_char arg = (case arg of VChar x \<Rightarrow> Inr x | _ \<Rightarrow> Inl ConversionError)"

definition extract_uchar :: "DynamicValue \<Rightarrow> error + 8 word" where
  "extract_uchar arg = (case arg of VUChar x \<Rightarrow> Inr x | _ \<Rightarrow> Inl ConversionError)"

definition extract_short :: "DynamicValue \<Rightarrow> error + 16 word" where
  "extract_short arg = (case arg of VShort x \<Rightarrow> Inr x | _ \<Rightarrow> Inl ConversionError)"

definition extract_ushort :: "DynamicValue \<Rightarrow> error + 16 word" where
  "extract_ushort arg = (case arg of VUShort x \<Rightarrow> Inr x | _ \<Rightarrow> Inl ConversionError)"

definition extract_int :: "DynamicValue \<Rightarrow> error + 32 word" where
  "extract_int arg = (case arg of VInt x \<Rightarrow> Inr x | _ \<Rightarrow> Inl ConversionError)"

definition extract_uint :: "DynamicValue \<Rightarrow> error + 32 word" where
  "extract_uint arg = (case arg of VUInt x \<Rightarrow> Inr x | _ \<Rightarrow> Inl ConversionError)"

definition extract_long :: "DynamicValue \<Rightarrow> error + 32 word" where
  "extract_long arg = (case arg of VLong x \<Rightarrow> Inr x | _ \<Rightarrow> Inl ConversionError)"

definition extract_ulong :: "DynamicValue \<Rightarrow> error + 32 word" where
  "extract_ulong arg = (case arg of VULong x \<Rightarrow> Inr x | _ \<Rightarrow> Inl ConversionError)"

definition extract_longlong :: "DynamicValue \<Rightarrow> error + 64 word" where
  "extract_longlong arg = (case arg of VLongLong x \<Rightarrow> Inr x | _ \<Rightarrow> Inl ConversionError)"

definition extract_ulonglong :: "DynamicValue \<Rightarrow> error + 64 word" where
  "extract_ulonglong arg = (case arg of VULongLong x \<Rightarrow> Inr x | _ \<Rightarrow> Inl ConversionError)"

definition extract_float :: "DynamicValue \<Rightarrow> error + 32 word" where
  "extract_float arg = (case arg of VFloat x \<Rightarrow> Inr x | _ \<Rightarrow> Inl ConversionError)"

definition extract_double :: "DynamicValue \<Rightarrow> error + 64 word" where
  "extract_double arg = (case arg of VDouble x \<Rightarrow> Inr x | _ \<Rightarrow> Inl ConversionError)"

definition extract_string :: "DynamicValue \<Rightarrow> error + ulong" where
  "extract_string arg = (case arg of VString x \<Rightarrow> Inr x | _ \<Rightarrow> Inl ConversionError)"

definition ExtractPyPtr :: "DynamicValue \<Rightarrow> error + ulong" where
  "ExtractPyPtr arg = (case arg of VPointer x \<Rightarrow> Inr x | _ \<Rightarrow> Inl ConversionError)"

section \<open>The signature alphabet\<close>

text \<open>
  Modelled from the spec: \<^verbatim>\<open>dyncall_signature.h\<close> is not among the sources. The spec
  fixes the grammar (one character per parameter kind, the delimiter \<^verbatim>\<open>)\<close>, one
  character for the return kind) and, by its examples \<^verbatim>\<open>"ip)i"\<close> and \<^verbatim>\<open>")v"\<close>, the
  characters of Int, Pointer and Void; the other kinds carry the characters of the call
  VM's signature alphabet.
\<close>

definition DC_SIGCHAR_VOID :: char where "DC_SIGCHAR_VOID = CHR ''v''"
definition DC_SIGCHAR_BOOL :: char where "DC_SIGCHAR_BOOL = CHR ''B''"
definition DC_SIGCHAR_CHAR :: char where "DC_SIGCHAR_CHAR = CHR ''c''"
definition DC_SIGCHAR_UCHAR :: char where "DC_SIGCHAR_UCHAR = CHR ''C''"
definition DC_SIGCHAR_SHORT :: char where "DC_SIGCHAR_SHORT = CHR ''s''"
definition DC_SIGCHAR_USHORT :: char where "DC_SIGCHAR_USHORT = CHR ''S''"
definition DC_SIGCHAR_INT :: char where "DC_SIGCHAR_INT = CHR ''i''"
definition DC_SIGCHAR_UINT :: char where "DC_SIGCHAR_UINT = CHR ''I''"
definition DC_SIGCHAR_LONG :: char where "DC_SIGCHAR_LONG = CHR ''j''"
definition DC_SIGCHAR_ULONG :: char where "DC_SIGCHAR_ULONG = CHR ''J''"
definition DC_SIGCHAR_LONGLONG :: char where "DC_SIGCHAR_LONGLONG = CHR ''l''"
definition DC_SIGCHAR_ULONGLONG :: char where "DC_SIGCHAR_ULONGLONG = CHR ''L''"
definition DC_SIGCHAR_FLOAT :: char where "DC_SIGCHAR_FLOAT = CHR ''f''"
definition DC_SIGCHAR_DOUBLE :: char where "DC_SIGCHAR_DOUBLE = CHR ''d''"
definition DC_SIGCHAR_POINTER :: char where "DC_SIGCHAR_POINTER = CHR ''p''"
definition DC_SIGCHAR_STRING :: char where "DC_SIGCHAR_STRING = CHR ''Z''"

section \<open>The call VM\<close>

text \<open>
  Modelled from the spec: the foreign-call VM is an external collaborator with the
  operations reset, set-mode, push-argument (one per primitive kind) and invoke-typed.
  Its state is the mode and the arguments pushed since the last reset ("reset to empty
  before each dispatch"). \<^verbatim>\<open>g_pCallVM\<close> is the one process-wide instance; next to it the
  model keeps the log of the operations issued on it, in order, so that theorems can
  speak about which operations ran and in which order.

  What the invoked function returns is outside the program: \<open>native\<close> is a parameter
  that gives the raw 64-bit return value for a VM state, a typed entry point and a target
  address; each typed entry point reads its own width of it.
\<close>

datatype Convention_t = CONV_CDECL | CONV_THISCALL | CONV_STDCALL

datatype dcmode = DC_CALL_C_DEFAULT | DC_CALL_C_X86_WIN32_THIS | DC_CALL_C_X86_WIN32_STD

datatype dcarg =
    ArgBool bool
  | ArgChar "8 word"
  | ArgShort "16 word"
  | ArgInt "32 word"
  | ArgLong "32 word"
  | ArgLongLong "64 word"
  | ArgFloat "32 word"
  | ArgDouble "64 word"
  | ArgPointer ulong

datatype dccall =
    CallVoid | CallBool | CallChar | CallShort | CallInt | CallLong | CallLongLong
  | CallFloat | CallDouble | CallPointer

datatype vmop = DcReset | DcMode dcmode | DcArg dcarg | DcCall dccall ulong

record DCCallVM =
  vm_mode :: dcmode
  vm_args :: "dcarg list"

record dc_state =
  g_pCallVM :: DCCallVM
  issued :: "vmop list"

type_synonym native = "DCCallVM \<Rightarrow> dccall \<Rightarrow> ulong \<Rightarrow> 64 word"

text \<open>
  Modelled from the spec: \<^verbatim>\<open>GetDynCallConvention\<close> (of \<^verbatim>\<open>binutils_macros.h\<close>, not among
  the sources) gives the VM mode of a convention tag.
\<close>

definition GetDynCallConvention :: "Convention_t \<Rightarrow> dcmode" where
  "GetDynCallConvention eConv =
     (case eConv of
        CONV_CDECL \<Rightarrow> DC_CALL_C_DEFAULT
      | CONV_THISCALL \<Rightarrow> DC_CALL_C_X86_WIN32_THIS
      | CONV_STDCALL \<Rightarrow> DC_CALL_C_X86_WIN32_STD)"

definition dcReset :: "dc_state \<Rightarrow> dc_state" where
  "dcReset st = st\<lparr>g_pCallVM := (g_pCallVM st)\<lparr>vm_args := []\<rparr>, issued := issued st @ [DcReset]\<rparr>"

definition dcMode :: "dcmode \<Rightarrow> dc_state \<Rightarrow> dc_state" where
  "dcMode m st = st\<lparr>g_pCallVM := (g_pCallVM st)\<lparr>vm_mode := m\<rparr>, issued := issued st @ [DcMode m]\<rparr>"

definition dcArg :: "dcarg \<Rightarrow> dc_state \<Rightarrow> dc_state" where
  "dcArg a st =
     st\<lparr>g_pCallVM := (g_pCallVM st)\<lparr>vm_args := vm_args (g_pCallVM st) @ [a]\<rparr>,
        issued := issued st @ [DcArg a]\<rparr>"

definition dcArgBool :: "bool \<Rightarrow> dc_state \<Rightarrow> dc_state" where
  "dcArgBool x = dcArg (ArgBool x)"

definition dcArgChar :: "8 word \<Rightarrow> dc_state \<Rightarrow> dc_state" where
  "dcArgChar x = dcArg (ArgChar x)"

definition dcArgShort :: "16 word \<Rightarrow> dc_state \<Rightarrow> dc_state" where
  "dcArgShort x = dcArg (ArgShort x)"

definition dcArgInt :: "32 word \<Rightarrow> dc_state \<Rightarrow> dc_state" where
  "dcArgInt x = dcArg (ArgInt x)"

definition dcArgLong :: "32 word \<Rightarrow> dc_state \<Rightarrow> dc_state" where
  "dcArgLong x = dcArg (ArgLong x)"

definition dcArgLongLong :: "64 word \<Rightarrow> dc_state \<Rightarrow> dc_state" where
  "dcArgLongLong x = dcArg (ArgLongLong x)"

definition dcArgFloat :: "32 word \<Rightarrow> dc_state \<Rightarrow> dc_state" where
  "dcArgFloat x = dcArg (ArgFloat x)"

definition dcArgDouble :: "64 word \<Rightarrow> dc_state \<Rightarrow> dc_state" where
  "dcArgDouble x = dcArg (ArgDouble x)"

definition dcArgPointer :: "ulong \<Rightarrow> dc_state \<Rightarrow> dc_state" where
  "dcArgPointer x = dcArg (ArgPointer x)"

text \<open>
  An invocation runs the target with the VM's mode and arguments and leaves the VM as it
  is (only a reset empties it).
\<close>

definition dcCall :: "native \<Rightarrow> dccall \<Rightarrow> ulong \<Rightarrow> dc_state \<Rightarrow> 64 word \<times> dc_state" where
  "dcCall nat_fn k addr st =
     (nat_fn (g_pCallVM st) k addr, st\<lparr>issued := issued st @ [DcCall k addr]\<rparr>)"

definition dcCallVoid :: "native \<Rightarrow> ulong \<Rightarrow> dc_state \<Rightarrow> dc_state" where
  "dcCallVoid nat_fn addr st = snd (dcCall nat_fn CallVoid addr st)"

definition dcCallBool :: "native \<Rightarrow> ulong \<Rightarrow> dc_state \<Rightarrow> bool \<times> dc_state" where
  "dcCallBool nat_fn addr st = (case dcCall nat_fn CallBool addr st of (r, st') \<Rightarrow> (r \<noteq> 0, st'))"

definition dcCallChar :: "native \<Rightarrow> ulong \<Rightarrow> dc_state \<Rightarrow> 8 word \<times> dc_state" where
  "dcCallChar nat_fn addr st = (case dcCall nat_fn CallChar addr st of (r, st') \<Rightarrow> (ucast r, st'))"

definition dcCallShort :: "native \<Rightarrow> ulong \<Rightarrow> dc_state \<Rightarrow> 16 word \<times> dc_state" where
  "dcCallShort nat_fn addr st = (case dcCall nat_fn CallShort addr st of (r, st') \<Rightarrow> (ucast r, st'))"

definition dcCallInt :: "native \<Rightarrow> ulong \<Rightarrow> dc_state \<Rightarrow> 32 word \<times> dc_state" where
  "dcCallInt nat_fn addr st = (case dcCall nat_fn CallInt addr st of (r, st') \<Rightarrow> (ucast r, st'))"

definition dcCallLong :: "native \<Rightarrow> ulong \<Rightarrow> dc_state \<Rightarrow> 32 word \<times> dc_state" where
  "dcCallLong nat_fn addr st = (case dcCall nat_fn CallLong addr st of (r, st') \<Rightarrow> (ucast r, st'))"

definition dcCallLongLong :: "native \<Rightarrow> ulong \<Rightarrow> dc_state \<Rightarrow> 64 word \<times> dc_state" where
  "dcCallLongLong nat_fn addr st = dcCall nat_fn CallLongLong addr st"

definition dcCallFloat :: "native \<Rightarrow> ulong \<Rightarrow> dc_state \<Rightarrow> 32 word \<times> dc_state" where
  "dcCallFloat nat_fn addr st = (case dcCall nat_fn CallFloat addr st of (r, st') \<Rightarrow> (ucast r, st'))"

definition dcCallDouble :: "native \<Rightarrow> ulong \<Rightarrow> dc_state \<Rightarrow> 64 word \<times> dc_state" where
  "dcCallDouble nat_fn addr st = dcCall nat_fn CallDouble addr st"

definition dcCallPointer :: "native \<Rightarrow> ulong \<Rightarrow> dc_state \<Rightarrow> ulong \<times> dc_state" where
  "dcCallPointer nat_fn addr st = (case dcCall nat_fn CallPointer addr st of (r, st') \<Rightarrow> (ucast r, st'))"

section \<open>Pointers and callables\<close>

text \<open>
  \<^verbatim>\<open>CPointer\<close> holds an address; \<^verbatim>\<open>CFunction\<close> derives from it and adds the convention
  tag and the signature string (the characters of \<^verbatim>\<open>m_szParams\<close> before its
  terminator). Both classes are declared in \<^verbatim>\<open>binutils_tools.h\<close>, which is not among
  the sources; the fields are the ones the constructors of the source assign.
\<close>

record CPointer =
  m_ulAddr :: ulong

record CFunction = CPointer +
  m_eConv :: Convention_t
  m_szParams :: string

text \<open>
  Modelled from the spec: \<^verbatim>\<open>IsValid\<close> is defined in the header; it "reports whether the
  stored address is non-zero (the only validity check performed)".
\<close>

definition IsValid :: "'a CPointer_scheme \<Rightarrow> bool" where
  "IsValid this = (m_ulAddr this \<noteq> 0)"

section \<open>The dispatcher: \<^verbatim>\<open>CFunction::__call__\<close>\<close>

text \<open>
  One \<^verbatim>\<open>case\<close> of the first \<^verbatim>\<open>switch\<close>: convert the argument, then push it. A failed
  conversion raises before the push, and the VM stays as it was.
\<close>

definition push_converted ::
  "error + 'a \<Rightarrow> ('a \<Rightarrow> dc_state \<Rightarrow> dc_state) \<Rightarrow> dc_state \<Rightarrow> error + dc_state" where
  "push_converted conv dcArgT st = (case conv of Inl e \<Rightarrow> Inl e | Inr x \<Rightarrow> Inr (dcArgT x st))"

text \<open>
  The first \<^verbatim>\<open>switch(ch)\<close> (lines 186-204), in the order of the source. The unsigned
  kinds extract the unsigned type and push it through the entry point of the signed type
  of the same width; a string is pushed as the address of its characters.
\<close>

definition push_param :: "char \<Rightarrow> DynamicValue \<Rightarrow> dc_state \<Rightarrow> error + dc_state" where
  "push_param ch arg st =
     (if ch = DC_SIGCHAR_BOOL then push_converted (extract_bool arg) dcArgBool st
      else if ch = DC_SIGCHAR_CHAR then push_converted (extract_char arg) dcArgChar st
      else if ch = DC_SIGCHAR_UCHAR then push_converted (extract_uchar arg) dcArgChar st
      else if ch = DC_SIGCHAR_SHORT then push_converted (extract_short arg) dcArgShort st
      else if ch = DC_SIGCHAR_USHORT then push_converted (extract_ushort arg) dcArgShort st
      else if ch = DC_SIGCHAR_INT then push_converted (extract_int arg) dcArgInt st
      else if ch = DC_SIGCHAR_UINT then push_converted (extract_uint arg) dcArgInt st
      else if ch = DC_SIGCHAR_LONG then push_converted (extract_long arg) dcArgLong st
      else if ch = DC_SIGCHAR_ULONG then push_converted (extract_ulong arg) dcArgLong st
      else if ch = DC_SIGCHAR_LONGLONG then push_converted (extract_longlong arg) dcArgLongLong st
      else if ch = DC_SIGCHAR_ULONGLONG then push_converted (extract_ulonglong arg) dcArgLongLong st
      else if ch = DC_SIGCHAR_FLOAT then push_converted (extract_float arg) dcArgFloat st
      else if ch = DC_SIGCHAR_DOUBLE then push_converted (extract_double arg) dcArgDouble st
      else if ch = DC_SIGCHAR_POINTER then push_converted (ExtractPyPtr arg) dcArgPointer st
      else if ch = DC_SIGCHAR_STRING then push_converted (extract_string arg) dcArgPointer st
      else Inl UnsupportedParameterTypeError)"

text \<open>
  The \<^verbatim>\<open>while\<close> loop (lines 177-206). The first argument is the string from \<^verbatim>\<open>ptr\<close>
  on; the result is the error raised, or the values of \<^verbatim>\<open>ch\<close>, \<^verbatim>\<open>ptr\<close> and \<^verbatim>\<open>pos\<close> when
  the loop is left, and in both cases the state of the VM at that moment.
  \<^item> The loop ends on the terminator or on \<^verbatim>\<open>)\<close>, with \<^verbatim>\<open>ptr\<close> still on that character.
  \<^item> On the Void character it steps \<^verbatim>\<open>ptr\<close> over it and breaks.
  \<^item> Otherwise \<^verbatim>\<open>args[pos]\<close> is read first (IndexError when \<^verbatim>\<open>pos\<close> is not an index),
    then the \<^verbatim>\<open>switch\<close> runs, then \<^verbatim>\<open>pos\<close> and \<^verbatim>\<open>ptr\<close> advance.
\<close>

fun scan_params ::
  "string \<Rightarrow> DynamicValue list \<Rightarrow> nat \<Rightarrow> dc_state \<Rightarrow> (error + char \<times> string \<times> nat) \<times> dc_state" where
  "scan_params [] args pos st = (Inr (NUL, [], pos), st)"
| "scan_params (ch # ptr) args pos st =
     (if ch = NUL \<or> ch = CHR '')'' then (Inr (ch, ch # ptr, pos), st)
      else if ch = DC_SIGCHAR_VOID then (Inr (ch, ptr, pos), st)
      else if length args \<le> pos then (Inl IndexError, st)
      else (case push_param ch (args ! pos) st of
              Inl e \<Rightarrow> (Inl e, st)
            | Inr st' \<Rightarrow> scan_params ptr args (pos + 1) st'))"

text \<open>\<^verbatim>\<open>*ptr\<close>: the character at \<^verbatim>\<open>ptr\<close>, the terminator at the end of the string.\<close>

definition deref :: "string \<Rightarrow> char" where
  "deref ptr = (case ptr of [] \<Rightarrow> NUL | ch # _ \<Rightarrow> ch)"

text \<open>
  \<^verbatim>\<open>*++ptr\<close> (line 214): the character after the one \<^verbatim>\<open>ptr\<close> is on. When the scan
  left \<^verbatim>\<open>ptr\<close> on the terminator (a Void marker was the last character of the string),
  \<^verbatim>\<open>++ptr\<close> leaves the string and the source reads the byte that lies behind the
  terminator in memory. The program does not determine that byte: \<open>behind\<close> is a
  parameter, and the \<^verbatim>\<open>switch\<close> dispatches on it as on any other character.
\<close>

definition deref_incr :: "char \<Rightarrow> string \<Rightarrow> char" where
  "deref_incr behind ptr = (if deref ptr = NUL then behind else deref (tl ptr))"

text \<open>
  The second \<^verbatim>\<open>switch(*++ptr)\<close> (lines 214-234): step over the character the scan
  stopped on, read the return kind, invoke through the typed entry point and wrap the
  result. The casts of the unsigned kinds keep the bits.
\<close>

definition call_return ::
  "native \<Rightarrow> char \<Rightarrow> ulong \<Rightarrow> string \<Rightarrow> dc_state \<Rightarrow> (error + DynamicValue) \<times> dc_state" where
  "call_return nat_fn behind addr ptr st =
     (let rk = deref_incr behind ptr in
        if rk = DC_SIGCHAR_VOID then (Inr Empty, dcCallVoid nat_fn addr st)
        else if rk = DC_SIGCHAR_BOOL then
          (case dcCallBool nat_fn addr st of (r, st') \<Rightarrow> (Inr (VBool r), st'))
        else if rk = DC_SIGCHAR_CHAR then
          (case dcCallChar nat_fn addr st of (r, st') \<Rightarrow> (Inr (VChar r), st'))
        else if rk = DC_SIGCHAR_UCHAR then
          (case dcCallChar nat_fn addr st of (r, st') \<Rightarrow> (Inr (VUChar r), st'))
        else if rk = DC_SIGCHAR_SHORT then
          (case dcCallShort nat_fn addr st of (r, st') \<Rightarrow> (Inr (VShort r), st'))
        else if rk = DC_SIGCHAR_USHORT then
          (case dcCallShort nat_fn addr st of (r, st') \<Rightarrow> (Inr (VUShort r), st'))
        else if rk = DC_SIGCHAR_INT then
          (case dcCallInt nat_fn addr st of (r, st') \<Rightarrow> (Inr (VInt r), st'))
        else if rk = DC_SIGCHAR_UINT then
          (case dcCallInt nat_fn addr st of (r, st') \<Rightarrow> (Inr (VUInt r), st'))
        else if rk = DC_SIGCHAR_LONG then
          (case dcCallLong nat_fn addr st of (r, st') \<Rightarrow> (Inr (VLong r), st'))
        else if rk = DC_SIGCHAR_ULONG then
          (case dcCallLong nat_fn addr st of (r, st') \<Rightarrow> (Inr (VULong r), st'))
        else if rk = DC_SIGCHAR_LONGLONG then
          (case dcCallLongLong nat_fn addr st of (r, st') \<Rightarrow> (Inr (VLongLong r), st'))
        else if rk = DC_SIGCHAR_ULONGLONG then
          (case dcCallLongLong nat_fn addr st of (r, st') \<Rightarrow> (Inr (VULongLong r), st'))
        else if rk = DC_SIGCHAR_FLOAT then
          (case dcCallFloat nat_fn addr st of (r, st') \<Rightarrow> (Inr (VFloat r), st'))
        else if rk = DC_SIGCHAR_DOUBLE then
          (case dcCallDouble nat_fn addr st of (r, st') \<Rightarrow> (Inr (VDouble r), st'))
        else if rk = DC_SIGCHAR_POINTER then
          (case dcCallPointer nat_fn addr st of (r, st') \<Rightarrow> (Inr (VPointer r), st'))
        else if rk = DC_SIGCHAR_STRING then
          (case dcCallPointer nat_fn addr st of (r, st') \<Rightarrow> (Inr (VString r), st'))
        else (Inl UnsupportedReturnTypeError, st))"

text \<open>
  \<^verbatim>\<open>CFunction::__call__\<close> (lines 167-235): the null check, reset, mode, the scan, the
  count check, the check of \<^verbatim>\<open>ch\<close> against the terminator, the invocation. \<^verbatim>\<open>ch\<close> is the
  character the loop condition read last: after the \<^verbatim>\<open>break\<close> on a Void marker it is
  still that marker, also when \<^verbatim>\<open>ptr\<close> was stepped onto the terminator.
\<close>

definition CFunction_call ::
  "native \<Rightarrow> char \<Rightarrow> CFunction \<Rightarrow> DynamicValue list \<Rightarrow> dc_state
     \<Rightarrow> (error + DynamicValue) \<times> dc_state" where
  "CFunction_call nat_fn behind this args st =
     (if \<not> IsValid this then (Inl NullPointerError, st)
      else
        (case scan_params (m_szParams this) args 0
                (dcMode (GetDynCallConvention (m_eConv this)) (dcReset st)) of
           (Inl e, st') \<Rightarrow> (Inl e, st')
         | (Inr (ch, ptr, pos), st') \<Rightarrow>
             if pos \<noteq> length args then (Inl ArgumentCountError, st')
             else if ch = NUL then (Inl MalformedSignatureError, st')
             else call_return nat_fn behind (m_ulAddr this) ptr st'))"

section \<open>The trampoline bridge: \<^verbatim>\<open>CFunction::CallTrampoline\<close>\<close>

text \<open>
  Modelled from the spec: the hook manager is an external collaborator;
  find-hook(address) gives an optional hook record, which holds the original-entry
  (trampoline) address. Its table is a map from hooked addresses to hook records.
\<close>

record CHook =
  m_pTrampoline :: ulong

type_synonym CHookManager = "ulong \<rightharpoonup> CHook"

definition FindHook :: "CHookManager \<Rightarrow> ulong \<Rightarrow> CHook option" where
  "FindHook g_pHookMngr addr = g_pHookMngr addr"

definition CallTrampoline ::
  "native \<Rightarrow> char \<Rightarrow> CHookManager \<Rightarrow> CFunction \<Rightarrow> DynamicValue list \<Rightarrow> dc_state
     \<Rightarrow> (error + DynamicValue) \<times> dc_state" where
  "CallTrampoline nat_fn behind g_pHookMngr this args st =
     (if \<not> IsValid this then (Inl NullPointerError, st)
      else
        (case FindHook g_pHookMngr (m_ulAddr this) of
           None \<Rightarrow> (Inl NotHookedError, st)
         | Some pHook \<Rightarrow>
             CFunction_call nat_fn behind
               \<lparr>m_ulAddr = m_pTrampoline pHook, m_eConv = m_eConv this, m_szParams = m_szParams this\<rparr>
               args st))"

section \<open>Raw memory: the \<^verbatim>\<open>CPointer\<close> accessors\<close>

text \<open>
  Memory is raw: every address holds a byte, and nothing is checked but the pointer's own
  address being non-zero. A 32-bit value lies in four bytes, least significant first
  (x86).
\<close>

type_synonym memory = "ulong \<Rightarrow> byte"

definition load32 :: "memory \<Rightarrow> ulong \<Rightarrow> 32 word" where
  "load32 mem a =
     ucast (mem a) OR push_bit 8 (ucast (mem (a + 1))) OR push_bit 16 (ucast (mem (a + 2)))
       OR push_bit 24 (ucast (mem (a + 3)))"

definition store32 :: "memory \<Rightarrow> ulong \<Rightarrow> 32 word \<Rightarrow> memory" where
  "store32 mem a v =
     mem(a := ucast v, a + 1 := ucast (drop_bit 8 v), a + 2 := ucast (drop_bit 16 v),
         a + 3 := ucast (drop_bit 24 v))"

fun write_bytes :: "memory \<Rightarrow> ulong \<Rightarrow> byte list \<Rightarrow> memory" where
  "write_bytes mem a [] = mem"
| "write_bytes mem a (b # bs) = write_bytes (mem(a := b)) (a + 1) bs"

text \<open>
  Modelled from the spec: the templates \<^verbatim>\<open>Get<T>\<close> and \<^verbatim>\<open>Set<T>\<close> are defined in the
  header; they are the typed "Read<T>(base, offset) / Write<T>(base, offset, value) over
  an absolute, caller-validated address". The instances the source uses read and write a
  pointer-sized value; \<^verbatim>\<open>GetAddress\<close> gives the stored address.
\<close>

definition Get_ptr :: "'a CPointer_scheme \<Rightarrow> cint \<Rightarrow> memory \<Rightarrow> ulong" where
  "Get_ptr this iOffset mem = load32 mem (m_ulAddr this + iOffset)"

definition Set_ptr :: "'a CPointer_scheme \<Rightarrow> ulong \<Rightarrow> cint \<Rightarrow> memory \<Rightarrow> memory" where
  "Set_ptr this val iOffset mem = store32 mem (m_ulAddr this + iOffset) val"

definition GetAddress :: "'a CPointer_scheme \<Rightarrow> ulong" where
  "GetAddress this = m_ulAddr this"

text \<open>
  A \<^verbatim>\<open>char*\<close> handed in by the embedding runtime: where the text lies, and its characters.
  \<^verbatim>\<open>strlen\<close> counts the characters before the terminator; \<^verbatim>\<open>strcpy\<close> writes them and
  the terminator.
\<close>

record c_string =
  c_addr :: ulong
  c_text :: string

definition strlen :: "c_string \<Rightarrow> nat" where
  "strlen s = length (takeWhile (\<lambda>ch. ch \<noteq> NUL) (c_text s))"

definition strcpy :: "ulong \<Rightarrow> c_string \<Rightarrow> memory \<Rightarrow> memory" where
  "strcpy dst s mem =
     write_bytes mem dst (map of_char (takeWhile (\<lambda>ch. ch \<noteq> NUL) (c_text s)) @ [0])"

text \<open>\<^verbatim>\<open>CPointer::GetString\<close> (lines 68-77): the address of the string.\<close>

definition GetString :: "CPointer \<Rightarrow> cint \<Rightarrow> bool \<Rightarrow> memory \<Rightarrow> error + ulong" where
  "GetString this iOffset bIsPtr mem =
     (if \<not> IsValid this then Inl NullPointerError
      else if bIsPtr then Inr (Get_ptr this iOffset mem)
      else Inr (m_ulAddr this + iOffset))"

text \<open>
  \<^verbatim>\<open>CPointer::SetString\<close> (lines 79-98). \<open>UTIL_GetSize\<close> is the platform's allocator-size
  query (\<^verbatim>\<open>_msize\<close> or \<^verbatim>\<open>malloc_usable_size\<close>), a parameter. \<^verbatim>\<open>iSize\<close> is an \<^verbatim>\<open>int\<close>:
  the probed \<^verbatim>\<open>size_t\<close> is stored into it bit for bit, and the comparison with
  \<^verbatim>\<open>(int) strlen(szText)\<close> is signed.
\<close>

definition SetString ::
  "(ulong \<Rightarrow> 32 word) \<Rightarrow> CPointer \<Rightarrow> c_string \<Rightarrow> cint \<Rightarrow> cint \<Rightarrow> bool \<Rightarrow> memory
     \<Rightarrow> error + memory" where
  "SetString UTIL_GetSize this szText iSize iOffset bIsPtr mem =
     (if \<not> IsValid this then Inl NullPointerError
      else
        let iSize' = (if iSize = 0 then UTIL_GetSize (m_ulAddr this + iOffset) else iSize) in
        if iSize = 0 \<and> iSize' = 0 then Inl AllocationSizeUnavailableError
        else if sint iSize' < sint (word_of_nat (strlen szText) :: 32 word) then
          Inl BufferOverflowError
        else if bIsPtr then Inr (Set_ptr this (c_addr szText) iOffset mem)
        else Inr (strcpy (m_ulAddr this + iOffset) szText mem))"

text \<open>\<^verbatim>\<open>CPointer::GetPtr\<close> (lines 100-106) and \<^verbatim>\<open>CPointer::SetPtr\<close> (lines 108-114).\<close>

definition GetPtr :: "CPointer \<Rightarrow> cint \<Rightarrow> memory \<Rightarrow> error + CPointer" where
  "GetPtr this iOffset mem =
     (if \<not> IsValid this then Inl NullPointerError
      else Inr \<lparr>m_ulAddr = load32 mem (m_ulAddr this + iOffset)\<rparr>)"

definition SetPtr :: "CPointer \<Rightarrow> CPointer \<Rightarrow> cint \<Rightarrow> memory \<Rightarrow> error + memory" where
  "SetPtr this ptr iOffset mem =
     (if \<not> IsValid this then Inl NullPointerError
      else Inr (store32 mem (m_ulAddr this) (GetAddress ptr)))"

text \<open>
  \<^verbatim>\<open>CPointer::GetVirtualFunc\<close> (lines 121-136). \<open>linux\<close> says whether the build defines
  \<^verbatim>\<open>__linux__\<close>. The object's first word is its vtable pointer; slot \<^verbatim>\<open>iIndex\<close> of the
  table lies \<open>4 * iIndex\<close> bytes from its start.
\<close>

definition GetVirtualFunc :: "bool \<Rightarrow> CPointer \<Rightarrow> cint \<Rightarrow> bool \<Rightarrow> memory \<Rightarrow> error + CPointer" where
  "GetVirtualFunc linux this iIndex bPlatformCheck mem =
     (if \<not> IsValid this then Inl NullPointerError
      else
        let iIndex' = (if linux \<and> bPlatformCheck then iIndex + 1 else iIndex);
            vtable = load32 mem (m_ulAddr this)
        in if vtable = 0 then Inr \<lparr>m_ulAddr = 0\<rparr>
           else Inr \<lparr>m_ulAddr = load32 mem (vtable + 4 * iIndex')\<rparr>)"

section \<open>The kind tables, in the spec's words\<close>

text \<open>
  The spec describes the dispatcher through three tables over the closed enumeration of
  kinds: the native value an argument is converted to for a parameter kind, the typed
  entry point a return kind selects, and the tag a result is wrapped with. They are
  written here from the spec, apart from the source's two \<^verbatim>\<open>switch\<close> statements, and
  the theorems below compare the two. An unsigned kind uses the entry point of the signed
  type of its width; a pointer and a string travel as addresses.
\<close>

definition return_kinds :: "char list" where
  "return_kinds =
     [DC_SIGCHAR_VOID, DC_SIGCHAR_BOOL, DC_SIGCHAR_CHAR, DC_SIGCHAR_UCHAR, DC_SIGCHAR_SHORT,
      DC_SIGCHAR_USHORT, DC_SIGCHAR_INT, DC_SIGCHAR_UINT, DC_SIGCHAR_LONG, DC_SIGCHAR_ULONG,
      DC_SIGCHAR_LONGLONG, DC_SIGCHAR_ULONGLONG, DC_SIGCHAR_FLOAT, DC_SIGCHAR_DOUBLE,
      DC_SIGCHAR_POINTER, DC_SIGCHAR_STRING]"

definition native_arg :: "char \<Rightarrow> DynamicValue \<Rightarrow> dcarg option" where
  "native_arg kind arg =
     (case arg of
        Empty \<Rightarrow> None
      | VBool x \<Rightarrow> if kind = DC_SIGCHAR_BOOL then Some (ArgBool x) else None
      | VChar x \<Rightarrow> if kind = DC_SIGCHAR_CHAR then Some (ArgChar x) else None
      | VUChar x \<Rightarrow> if kind = DC_SIGCHAR_UCHAR then Some (ArgChar x) else None
      | VShort x \<Rightarrow> if kind = DC_SIGCHAR_SHORT then Some (ArgShort x) else None
      | VUShort x \<Rightarrow> if kind = DC_SIGCHAR_USHORT then Some (ArgShort x) else None
      | VInt x \<Rightarrow> if kind = DC_SIGCHAR_INT then Some (ArgInt x) else None
      | VUInt x \<Rightarrow> if kind = DC_SIGCHAR_UINT then Some (ArgInt x) else None
      | VLong x \<Rightarrow> if kind = DC_SIGCHAR_LONG then Some (ArgLong x) else None
      | VULong x \<Rightarrow> if kind = DC_SIGCHAR_ULONG then Some (ArgLong x) else None
      | VLongLong x \<Rightarrow> if kind = DC_SIGCHAR_LONGLONG then Some (ArgLongLong x) else None
      | VULongLong x \<Rightarrow> if kind = DC_SIGCHAR_ULONGLONG then Some (ArgLongLong x) else None
      | VFloat x \<Rightarrow> if kind = DC_SIGCHAR_FLOAT then Some (ArgFloat x) else None
      | VDouble x \<Rightarrow> if kind = DC_SIGCHAR_DOUBLE then Some (ArgDouble x) else None
      | VPointer x \<Rightarrow> if kind = DC_SIGCHAR_POINTER then Some (ArgPointer x) else None
      | VString x \<Rightarrow> if kind = DC_SIGCHAR_STRING then Some (ArgPointer x) else None)"

fun marshal_args :: "string \<Rightarrow> DynamicValue list \<Rightarrow> dcarg list option" where
  "marshal_args [] [] = Some []"
| "marshal_args (kind # kinds) (arg # args) =
     (case native_arg kind arg of
        None \<Rightarrow> None
      | Some a \<Rightarrow> map_option ((#) a) (marshal_args kinds args))"
| "marshal_args _ _ = None"

definition entry_point :: "char \<Rightarrow> dccall" where
  "entry_point kind =
     (if kind = DC_SIGCHAR_BOOL then CallBool
      else if kind = DC_SIGCHAR_CHAR \<or> kind = DC_SIGCHAR_UCHAR then CallChar
      else if kind = DC_SIGCHAR_SHORT \<or> kind = DC_SIGCHAR_USHORT then CallShort
      else if kind = DC_SIGCHAR_INT \<or> kind = DC_SIGCHAR_UINT then CallInt
      else if kind = DC_SIGCHAR_LONG \<or> kind = DC_SIGCHAR_ULONG then CallLong
      else if kind = DC_SIGCHAR_LONGLONG \<or> kind = DC_SIGCHAR_ULONGLONG then CallLongLong
      else if kind = DC_SIGCHAR_FLOAT then CallFloat
      else if kind = DC_SIGCHAR_DOUBLE then CallDouble
      else if kind = DC_SIGCHAR_POINTER \<or> kind = DC_SIGCHAR_STRING then CallPointer
      else CallVoid)"

definition wrap_result :: "char \<Rightarrow> 64 word \<Rightarrow> DynamicValue" where
  "wrap_result kind raw =
     (if kind = DC_SIGCHAR_BOOL then VBool (raw \<noteq> 0)
      else if kind = DC_SIGCHAR_CHAR then VChar (ucast raw)
      else if kind = DC_SIGCHAR_UCHAR then VUChar (ucast raw)
      else if kind = DC_SIGCHAR_SHORT then VShort (ucast raw)
      else if kind = DC_SIGCHAR_USHORT then VUShort (ucast raw)
      else if kind = DC_SIGCHAR_INT then VInt (ucast raw)
      else if kind = DC_SIGCHAR_UINT then VUInt (ucast raw)
      else if kind = DC_SIGCHAR_LONG then VLong (ucast raw)
      else if kind = DC_SIGCHAR_ULONG then VULong (ucast raw)
      else if kind = DC_SIGCHAR_LONGLONG then VLongLong raw
      else if kind = DC_SIGCHAR_ULONGLONG then VULongLong raw
      else if kind = DC_SIGCHAR_FLOAT then VFloat (ucast raw)
      else if kind = DC_SIGCHAR_DOUBLE then VDouble raw
      else if kind = DC_SIGCHAR_POINTER then VPointer (ucast raw)
      else if kind = DC_SIGCHAR_STRING then VString (ucast raw)
      else Empty)"

definition kind_of :: "DynamicValue \<Rightarrow> char" where
  "kind_of v =
     (case v of
        Empty \<Rightarrow> DC_SIGCHAR_VOID
      | VBool _ \<Rightarrow> DC_SIGCHAR_BOOL
      | VChar _ \<Rightarrow> DC_SIGCHAR_CHAR
      | VUChar _ \<Rightarrow> DC_SIGCHAR_UCHAR
      | VShort _ \<Rightarrow> DC_SIGCHAR_SHORT
      | VUShort _ \<Rightarrow> DC_SIGCHAR_USHORT
      | VInt _ \<Rightarrow> DC_SIGCHAR_INT
      | VUInt _ \<Rightarrow> DC_SIGCHAR_UINT
      | VLong _ \<Rightarrow> DC_SIGCHAR_LONG
      | VULong _ \<Rightarrow> DC_SIGCHAR_ULONG
      | VLongLong _ \<Rightarrow> DC_SIGCHAR_LONGLONG
      | VULongLong _ \<Rightarrow> DC_SIGCHAR_ULONGLONG
      | VFloat _ \<Rightarrow> DC_SIGCHAR_FLOAT
      | VDouble _ \<Rightarrow> DC_SIGCHAR_DOUBLE
      | VPointer _ \<Rightarrow> DC_SIGCHAR_POINTER
      | VString _ \<Rightarrow> DC_SIGCHAR_STRING)"

section \<open>Evaluation rules and helper lemmas\<close>

lemmas extract_defs =
  extract_bool_def extract_char_def extract_uchar_def extract_short_def extract_ushort_def
  extract_int_def extract_uint_def extract_long_def extract_ulong_def extract_longlong_def
  extract_ulonglong_def extract_float_def extract_double_def extract_string_def
  ExtractPyPtr_def

lemmas sigchar_defs =
  NUL_def DC_SIGCHAR_VOID_def DC_SIGCHAR_BOOL_def DC_SIGCHAR_CHAR_def DC_SIGCHAR_UCHAR_def
  DC_SIGCHAR_SHORT_def DC_SIGCHAR_USHORT_def DC_SIGCHAR_INT_def DC_SIGCHAR_UINT_def
  DC_SIGCHAR_LONG_def DC_SIGCHAR_ULONG_def DC_SIGCHAR_LONGLONG_def
  DC_SIGCHAR_ULONGLONG_def DC_SIGCHAR_FLOAT_def DC_SIGCHAR_DOUBLE_def
  DC_SIGCHAR_POINTER_def DC_SIGCHAR_STRING_def

lemmas dcArg_defs =
  dcArgBool_def dcArgChar_def dcArgShort_def dcArgInt_def dcArgLong_def dcArgLongLong_def
  dcArgFloat_def dcArgDouble_def dcArgPointer_def

lemmas dcCall_defs =
  dcCallVoid_def dcCallBool_def dcCallChar_def dcCallShort_def dcCallInt_def dcCallLong_def
  dcCallLongLong_def dcCallFloat_def dcCallDouble_def dcCallPointer_def

lemmas call_eval =
  CFunction_call_def IsValid_def push_param_def push_converted_def call_return_def deref_incr_def deref_def
  dcReset_def dcMode_def dcArg_def dcCall_def GetDynCallConvention_def
  extract_defs sigchar_defs dcArg_defs dcCall_defs

lemma vm_overwrite [simp]:
  "(vm :: DCCallVM)\<lparr>vm_mode := m, vm_args := as\<rparr> = \<lparr>vm_mode = m, vm_args = as\<rparr>"
  "(vm :: DCCallVM)\<lparr>vm_args := as, vm_mode := m\<rparr> = \<lparr>vm_mode = m, vm_args = as\<rparr>"
  by (cases vm, simp)+

lemma native_arg_push:
  assumes "native_arg kind arg = Some a"
  shows "push_param kind arg st = Inr (dcArg a st)"
    and "kind \<noteq> NUL" and "kind \<noteq> CHR '')''" and "kind \<noteq> DC_SIGCHAR_VOID"
  using assms
  by (cases arg;
      simp add: native_arg_def push_param_def push_converted_def extract_defs sigchar_defs
        dcArg_defs split: if_splits)+

lemma issued_foldl_dcArg:
  "issued (foldl (\<lambda>s a. dcArg a s) st as) = issued st @ map DcArg as"
  by (induction as arbitrary: st) (simp_all add: dcArg_def)

lemma vm_foldl_dcArg:
  "g_pCallVM (foldl (\<lambda>s a. dcArg a s) st as)
     = (g_pCallVM st)\<lparr>vm_args := vm_args (g_pCallVM st) @ as\<rparr>"
  by (induction as arbitrary: st) (simp_all add: dcArg_def)

lemma scan_params_marshalled:
  assumes "marshal_args kinds args' = Some as"
  shows "scan_params (kinds @ CHR '')'' # rest) (seen @ args') (length seen) st
           = (Inr (CHR '')'', CHR '')'' # rest, length seen + length kinds),
              foldl (\<lambda>s a. dcArg a s) st as)"
  using assms
proof (induction kinds args' arbitrary: as seen st rule: marshal_args.induct)
  case 1
  then show ?case by simp
next
  case (2 kind kinds arg args)
  from "2.prems" obtain a as' where a: "native_arg kind arg = Some a"
    and as': "marshal_args kinds args = Some as'" and as: "as = a # as'"
    by (auto split: option.splits)
  have "scan_params (kinds @ CHR '')'' # rest) ((seen @ [arg]) @ args) (length (seen @ [arg]))
          (dcArg a st)
        = (Inr (CHR '')'', CHR '')'' # rest, length (seen @ [arg]) + length kinds),
           foldl (\<lambda>s a. dcArg a s) (dcArg a st) as')"
    by (rule "2.IH" [OF a as'])
  with a as show ?case
    by (simp add: native_arg_push)
qed simp_all

lemma call_return_kind:
  assumes "kind \<in> set return_kinds"
  shows "call_return nat_fn behind addr (CHR '')'' # kind # rest) st
           = (Inr (wrap_result kind (nat_fn (g_pCallVM st) (entry_point kind) addr)),
              st\<lparr>issued := issued st @ [DcCall (entry_point kind) addr]\<rparr>)"
  using assms
  by (auto simp add: return_kinds_def call_return_def deref_incr_def deref_def wrap_result_def
        entry_point_def
        dcCall_defs dcCall_def sigchar_defs)

section \<open>The dispatcher's normal path\<close>

text \<open>
  C1 (as amended). For a callable with a non-zero address and a signature of the form
  \<open>kinds @ '')'' @ [ret]\<close> with \<open>ret\<close> a return kind, invoked with one argument per
  parameter kind, each convertible to the native type of its kind (\<open>marshal_args\<close> gives
  the converted values \<open>as\<close>): the operations issued on the call VM are, in this order,
  one reset, one mode setting with the mode of the callable's convention tag, one push per
  argument in signature order, and exactly one invocation, through the entry point the
  return kind selects, at the callable's address. The VM holds that mode and exactly these
  arguments when the target runs, whatever it held before. The result is the native return
  value wrapped with the tag of the return kind, and the Void kind gives the empty value.
\<close>

theorem call_dispatch_order:
  assumes "m_ulAddr this \<noteq> 0"
    and "m_szParams this = kinds @ [CHR '')'', ret]"
    and "marshal_args kinds args = Some as"
    and "ret \<in> set return_kinds"
  shows "CFunction_call nat_fn behind this args st =
           (Inr (wrap_result ret
                   (nat_fn \<lparr>vm_mode = GetDynCallConvention (m_eConv this), vm_args = as\<rparr>
                      (entry_point ret) (m_ulAddr this))),
            \<lparr>g_pCallVM = \<lparr>vm_mode = GetDynCallConvention (m_eConv this), vm_args = as\<rparr>,
             issued = issued st @ [DcReset, DcMode (GetDynCallConvention (m_eConv this))]
                        @ map DcArg as @ [DcCall (entry_point ret) (m_ulAddr this)]\<rparr>)
         \<and> kind_of (wrap_result ret raw) = ret
         \<and> wrap_result DC_SIGCHAR_VOID raw = Empty"
proof -
  let ?m = "GetDynCallConvention (m_eConv this)"
  let ?st2 = "dcMode ?m (dcReset st)"
  have len: "length args = length kinds"
    using assms(3) by (induction kinds args arbitrary: as rule: marshal_args.induct)
      (auto split: option.splits)
  have scan: "scan_params (m_szParams this) args 0 ?st2
                = (Inr (CHR '')'', [CHR '')'', ret], length kinds), foldl (\<lambda>s a. dcArg a s) ?st2 as)"
    using scan_params_marshalled [OF assms(3), of "[ret]" "[]" ?st2] assms(2) by simp
  have ret: "kind_of (wrap_result ret raw) = ret"
    using assms(4) by (auto simp add: return_kinds_def wrap_result_def kind_of_def sigchar_defs)
  have void: "wrap_result DC_SIGCHAR_VOID raw = Empty"
    by (simp add: wrap_result_def sigchar_defs)
  have "CFunction_call nat_fn behind this args st
          = call_return nat_fn behind (m_ulAddr this) [CHR '')'', ret] (foldl (\<lambda>s a. dcArg a s) ?st2 as)"
    using assms(1) len by (simp add: CFunction_call_def IsValid_def scan NUL_def)
  also have "\<dots> = (Inr (wrap_result ret
                   (nat_fn \<lparr>vm_mode = ?m, vm_args = as\<rparr> (entry_point ret) (m_ulAddr this))),
            \<lparr>g_pCallVM = \<lparr>vm_mode = ?m, vm_args = as\<rparr>,
             issued = issued st @ [DcReset, DcMode ?m]
                        @ map DcArg as @ [DcCall (entry_point ret) (m_ulAddr this)]\<rparr>)"
    by (simp add: call_return_kind [OF assms(4)] vm_foldl_dcArg issued_foldl_dcArg
          dcMode_def dcReset_def)
  finally show ?thesis using ret void by simp
qed

theorem call_dispatch_order_witness:
  "marshal_args ''ip'' [VInt 7, VPointer 0x2000] = Some [ArgInt 7, ArgPointer 0x2000]
   \<and> CFunction_call (\<lambda>vm k a. 42) (CHR ''i'')
       \<lparr>m_ulAddr = 0x1000, m_eConv = CONV_STDCALL, m_szParams = ''ip)i''\<rparr>
       [VInt 7, VPointer 0x2000]
       \<lparr>g_pCallVM = \<lparr>vm_mode = DC_CALL_C_DEFAULT, vm_args = [ArgBool True]\<rparr>, issued = []\<rparr>
     = (Inr (VInt 42),
        \<lparr>g_pCallVM = \<lparr>vm_mode = DC_CALL_C_X86_WIN32_STD, vm_args = [ArgInt 7, ArgPointer 0x2000]\<rparr>,
         issued = [DcReset, DcMode DC_CALL_C_X86_WIN32_STD, DcArg (ArgInt 7),
                   DcArg (ArgPointer 0x2000), DcCall CallInt 0x1000]\<rparr>)"
proof -
  have m: "marshal_args ''ip'' [VInt 7, VPointer 0x2000] = Some [ArgInt 7, ArgPointer 0x2000]"
    by (simp add: native_arg_def sigchar_defs)
  have r: "CHR ''i'' \<in> set return_kinds"
    by (simp add: return_kinds_def sigchar_defs)
  show ?thesis
    using m
      call_dispatch_order
        [of "\<lparr>m_ulAddr = 0x1000, m_eConv = CONV_STDCALL, m_szParams = ''ip)i''\<rparr>"
            "''ip''" "CHR ''i''" "[VInt 7, VPointer 0x2000]" "[ArgInt 7, ArgPointer 0x2000]"
            "\<lambda>vm k a. 42" "CHR ''i''"
            "\<lparr>g_pCallVM = \<lparr>vm_mode = DC_CALL_C_DEFAULT, vm_args = [ArgBool True]\<rparr>, issued = []\<rparr>"
            0, OF _ _ m r]
    by (simp add: wrap_result_def entry_point_def sigchar_defs GetDynCallConvention_def)
qed

text \<open>
  The claim as written asks for the invocation whenever the address is non-zero and the
  signature well-formed. With \<^verbatim>\<open>")v"\<close> and one argument the count check of line 208
  raises after the reset and the mode setting, and nothing is invoked.
\<close>

theorem call_count_mismatch_counterexample:
  "CFunction_call (\<lambda>vm k a. 42) (CHR ''i'')
     \<lparr>m_ulAddr = 0x1000, m_eConv = CONV_CDECL, m_szParams = '')v''\<rparr> [VInt 1]
     \<lparr>g_pCallVM = \<lparr>vm_mode = DC_CALL_C_DEFAULT, vm_args = []\<rparr>, issued = []\<rparr>
   = (Inl ArgumentCountError,
      \<lparr>g_pCallVM = \<lparr>vm_mode = DC_CALL_C_DEFAULT, vm_args = []\<rparr>,
       issued = [DcReset, DcMode DC_CALL_C_DEFAULT]\<rparr>)"
  by (simp add: call_eval)

section \<open>Arity\<close>

text \<open>
  C3. With the signature \<^verbatim>\<open>"ii)i"\<close> and a non-zero address, two int arguments reach the
  invocation (through the Int entry point, with both arguments pushed), and three
  arguments fail with ArgumentCountError. One argument fails too, but not at the count
  check: the loop reads \<^verbatim>\<open>args[1]\<close> for the second \<^verbatim>\<open>i\<close> before line 208 is reached, and
  the runtime raises IndexError.
\<close>

theorem call_ii_i_arity:
  "fst (CFunction_call nat_fn behind \<lparr>m_ulAddr = 0x1000, m_eConv = CONV_CDECL, m_szParams = ''ii)i''\<rparr>
          [VInt a] st) = Inl IndexError
   \<and> fst (CFunction_call nat_fn behind \<lparr>m_ulAddr = 0x1000, m_eConv = CONV_CDECL, m_szParams = ''ii)i''\<rparr>
          [VInt a, VInt b] st)
       = Inr (VInt (ucast (nat_fn \<lparr>vm_mode = DC_CALL_C_DEFAULT, vm_args = [ArgInt a, ArgInt b]\<rparr>
                             CallInt 0x1000)))
   \<and> fst (CFunction_call nat_fn behind \<lparr>m_ulAddr = 0x1000, m_eConv = CONV_CDECL, m_szParams = ''ii)i''\<rparr>
          [VInt a, VInt b, VInt c] st) = Inl ArgumentCountError"
  by (simp add: call_eval)

section \<open>The null check\<close>

text \<open>
  C4. Whatever the signature string and the argument list, invoking a callable whose
  address is 0 fails with NullPointerError, and the call VM and the log of operations
  issued on it are as before: nothing was issued.
\<close>

theorem call_null_address:
  "m_ulAddr this = 0 \<Longrightarrow> CFunction_call nat_fn behind this args st = (Inl NullPointerError, st)"
  by (simp add: CFunction_call_def IsValid_def)

theorem call_null_address_witness:
  "CFunction_call (\<lambda>vm k a. 42) (CHR ''i'')
     \<lparr>m_ulAddr = 0, m_eConv = CONV_CDECL, m_szParams = ''ii)i''\<rparr> [VInt 1, VInt 2]
     \<lparr>g_pCallVM = \<lparr>vm_mode = DC_CALL_C_X86_WIN32_STD, vm_args = [ArgInt 9]\<rparr>, issued = []\<rparr>
   = (Inl NullPointerError,
      \<lparr>g_pCallVM = \<lparr>vm_mode = DC_CALL_C_X86_WIN32_STD, vm_args = [ArgInt 9]\<rparr>, issued = []\<rparr>)"
  using call_null_address [of "\<lparr>m_ulAddr = 0, m_eConv = CONV_CDECL, m_szParams = ''ii)i''\<rparr>"]
  by simp

section \<open>The empty signature\<close>

text \<open>
  C6 (as amended). For a callable with a non-zero address and the empty signature string,
  the scan stops at once on the terminator with no argument consumed. The count check of
  line 208 comes before the return-type check of line 211: an empty argument list fails
  with MalformedSignatureError, a non-empty one with ArgumentCountError. In both cases
  only the reset and the mode setting were issued.
\<close>

theorem call_empty_signature:
  assumes "m_ulAddr this \<noteq> 0" and "m_szParams this = []"
  shows "CFunction_call nat_fn behind this args st =
           (if args = [] then Inl MalformedSignatureError else Inl ArgumentCountError,
            \<lparr>g_pCallVM = \<lparr>vm_mode = GetDynCallConvention (m_eConv this), vm_args = []\<rparr>,
             issued = issued st @ [DcReset, DcMode (GetDynCallConvention (m_eConv this))]\<rparr>)"
  using assms by (simp add: CFunction_call_def IsValid_def dcMode_def dcReset_def)

theorem call_empty_signature_witness:
  "CFunction_call (\<lambda>vm k a. 42) (CHR ''i'') \<lparr>m_ulAddr = 0x1000, m_eConv = CONV_CDECL, m_szParams = ''''\<rparr> []
     \<lparr>g_pCallVM = \<lparr>vm_mode = DC_CALL_C_X86_WIN32_STD, vm_args = [ArgInt 9]\<rparr>, issued = []\<rparr>
   = (Inl MalformedSignatureError,
      \<lparr>g_pCallVM = \<lparr>vm_mode = DC_CALL_C_DEFAULT, vm_args = []\<rparr>,
       issued = [DcReset, DcMode DC_CALL_C_DEFAULT]\<rparr>)"
  using call_empty_signature
    [of "\<lparr>m_ulAddr = 0x1000, m_eConv = CONV_CDECL, m_szParams = ''''\<rparr>" "\<lambda>vm k a. 42" "CHR ''i''" "[]"
        "\<lparr>g_pCallVM = \<lparr>vm_mode = DC_CALL_C_X86_WIN32_STD, vm_args = [ArgInt 9]\<rparr>, issued = []\<rparr>"]
  by (simp add: GetDynCallConvention_def)

text \<open>
  The claim as written promises MalformedSignatureError for every argument list. One
  argument is enough for the count check to raise first.
\<close>

theorem call_empty_signature_counterexample:
  "fst (CFunction_call (\<lambda>vm k a. 42) (CHR ''i'')
          \<lparr>m_ulAddr = 0x1000, m_eConv = CONV_CDECL, m_szParams = ''''\<rparr> [VInt 1]
          \<lparr>g_pCallVM = \<lparr>vm_mode = DC_CALL_C_DEFAULT, vm_args = []\<rparr>, issued = []\<rparr>)
     = Inl ArgumentCountError
   \<and> fst (CFunction_call (\<lambda>vm k a. 42) (CHR ''i'')
          \<lparr>m_ulAddr = 0x1000, m_eConv = CONV_CDECL, m_szParams = ''''\<rparr> [VInt 1]
          \<lparr>g_pCallVM = \<lparr>vm_mode = DC_CALL_C_DEFAULT, vm_args = []\<rparr>, issued = []\<rparr>)
     \<noteq> Inl MalformedSignatureError"
  by (simp add: call_eval)

section \<open>Failed dispatches\<close>

text \<open>
  The first \<^verbatim>\<open>switch\<close> against the table of native arguments: a push succeeds exactly
  when the table has an entry, and then pushes that entry.
\<close>

lemma push_param_native:
  "push_param kind arg st =
     (case native_arg kind arg of
        Some a \<Rightarrow> Inr (dcArg a st)
      | None \<Rightarrow> Inl (if kind \<in> set (tl return_kinds) then ConversionError
                    else UnsupportedParameterTypeError))"
  by (cases arg;
      simp add: native_arg_def push_param_def push_converted_def extract_defs sigchar_defs
        dcArg_defs return_kinds_def)

lemma scan_params_pushes:
  "\<exists>as. snd (scan_params sig args pos st) = foldl (\<lambda>s a. dcArg a s) st as"
proof (induction sig arbitrary: pos st)
  case Nil
  show ?case by (simp add: exI [of _ "[]"])
next
  case (Cons ch sig)
  show ?case
  proof (cases "native_arg ch (args ! pos)")
    case None
    then show ?thesis
      by (simp add: push_param_native exI [of _ "[]"])
  next
    case (Some a)
    from Cons.IH [of "pos + 1" "dcArg a st"] obtain as
      where "snd (scan_params sig args (pos + 1) (dcArg a st))
               = foldl (\<lambda>s a. dcArg a s) (dcArg a st) as" ..
    then have "snd (scan_params sig args (pos + 1) (dcArg a st))
                 = foldl (\<lambda>s a. dcArg a s) st (a # as)" by simp
    then have "\<exists>bs. snd (scan_params sig args (pos + 1) (dcArg a st))
                 = foldl (\<lambda>s a. dcArg a s) st bs" ..
    with Some show ?thesis
      by (simp add: push_param_native exI [of _ "[]"])
  qed
qed

lemma call_return_failed:
  assumes "fst (call_return nat_fn behind addr ptr st) = Inl e"
  shows "snd (call_return nat_fn behind addr ptr st) = st"
proof -
  have "case fst (call_return nat_fn behind addr ptr st) of
          Inl e \<Rightarrow> snd (call_return nat_fn behind addr ptr st) = st
        | Inr v \<Rightarrow> True"
    by (simp add: call_return_def Let_def dcCall_defs dcCall_def)
  with assms show ?thesis by simp
qed

lemma call_return_issued:
  "\<exists>ops. issued (snd (call_return nat_fn behind addr ptr st)) = issued st @ ops
         \<and> (\<forall>e. fst (call_return nat_fn behind addr ptr st) = Inl e \<longrightarrow> ops = [])"
proof -
  let ?ops = "drop (length (issued st)) (issued (snd (call_return nat_fn behind addr ptr st)))"
  have "issued (snd (call_return nat_fn behind addr ptr st)) = issued st @ ?ops"
    by (simp add: call_return_def Let_def dcCall_defs dcCall_def)
  moreover have "\<forall>e. fst (call_return nat_fn behind addr ptr st) = Inl e \<longrightarrow> ?ops = []"
    by (simp add: call_return_failed)
  ultimately show ?thesis by (intro exI [of _ ?ops] conjI)
qed

lemma scan_params_vm:
  assumes "g_pCallVM s1 = g_pCallVM s2"
  shows "fst (scan_params sig args pos s1) = fst (scan_params sig args pos s2)
       \<and> g_pCallVM (snd (scan_params sig args pos s1))
           = g_pCallVM (snd (scan_params sig args pos s2))"
  using assms
proof (induction sig arbitrary: pos s1 s2)
  case Nil
  then show ?case by simp
next
  case (Cons ch sig)
  show ?case
  proof (cases "native_arg ch (args ! pos)")
    case None
    with Cons.prems show ?thesis by (simp add: push_param_native)
  next
    case (Some a)
    have "g_pCallVM (dcArg a s1) = g_pCallVM (dcArg a s2)"
      using Cons.prems by (simp add: dcArg_def)
    from Cons.IH [OF this, of "pos + 1"] Some Cons.prems show ?thesis
      by (simp add: push_param_native)
  qed
qed

lemma call_return_vm:
  assumes "g_pCallVM s1 = g_pCallVM s2"
  shows "fst (call_return nat_fn behind addr ptr s1) = fst (call_return nat_fn behind addr ptr s2)
       \<and> g_pCallVM (snd (call_return nat_fn behind addr ptr s1))
           = g_pCallVM (snd (call_return nat_fn behind addr ptr s2))"
  using assms by (simp add: call_return_def Let_def dcCall_defs dcCall_def)

lemma call_vm:
  assumes "m_ulAddr this \<noteq> 0"
  shows "fst (CFunction_call nat_fn behind this args s1) = fst (CFunction_call nat_fn behind this args s2)
       \<and> g_pCallVM (snd (CFunction_call nat_fn behind this args s1))
           = g_pCallVM (snd (CFunction_call nat_fn behind this args s2))"
proof -
  let ?m = "GetDynCallConvention (m_eConv this)"
  let ?t1 = "dcMode ?m (dcReset s1)" and ?t2 = "dcMode ?m (dcReset s2)"
  have vm: "g_pCallVM ?t1 = g_pCallVM ?t2"
    by (simp add: dcMode_def dcReset_def)
  obtain r u1 where r1: "scan_params (m_szParams this) args 0 ?t1 = (r, u1)"
    by (cases "scan_params (m_szParams this) args 0 ?t1")
  obtain r' u2 where r2': "scan_params (m_szParams this) args 0 ?t2 = (r', u2)"
    by (cases "scan_params (m_szParams this) args 0 ?t2")
  from scan_params_vm [OF vm, of "m_szParams this" args 0] r1 r2'
  have "r' = r" and u: "g_pCallVM u1 = g_pCallVM u2" by simp_all
  with r2' have r2: "scan_params (m_szParams this) args 0 ?t2 = (r, u2)" by simp
  show ?thesis
  proof (cases r)
    case (Inl e)
    then show ?thesis
      using assms u by (simp add: CFunction_call_def IsValid_def r1 r2)
  next
    case (Inr t)
    obtain ch ptr pos where t: "t = (ch, ptr, pos)" by (cases t)
    from call_return_vm [OF u, of nat_fn behind "m_ulAddr this" ptr]
    show ?thesis
      using assms u by (simp add: CFunction_call_def IsValid_def r1 r2 Inr t)
  qed
qed

lemma call_issued:
  assumes "m_ulAddr this \<noteq> 0"
  shows "\<exists>as ops. issued (snd (CFunction_call nat_fn behind this args st))
             = issued st @ [DcReset, DcMode (GetDynCallConvention (m_eConv this))]
                 @ map DcArg as @ ops
           \<and> (\<forall>e. fst (CFunction_call nat_fn behind this args st) = Inl e \<longrightarrow> ops = [])"
proof -
  let ?m = "GetDynCallConvention (m_eConv this)"
  let ?t = "dcMode ?m (dcReset st)"
  obtain r u where r: "scan_params (m_szParams this) args 0 ?t = (r, u)"
    by (cases "scan_params (m_szParams this) args 0 ?t")
  from scan_params_pushes [of "m_szParams this" args 0 ?t] r obtain as
    where "u = foldl (\<lambda>s a. dcArg a s) ?t as" by auto
  then have u: "issued u = issued st @ [DcReset, DcMode ?m] @ map DcArg as"
    by (simp add: issued_foldl_dcArg dcMode_def dcReset_def)
  show ?thesis
  proof (cases "\<exists>ch ptr. r = Inr (ch, ptr, length args) \<and> ch \<noteq> NUL")
    case True
    then obtain ch ptr where ok: "r = Inr (ch, ptr, length args)" "ch \<noteq> NUL" by blast
    with assms r
    have call: "CFunction_call nat_fn behind this args st = call_return nat_fn behind (m_ulAddr this) ptr u"
      by (simp add: CFunction_call_def IsValid_def)
    from call_return_issued [of nat_fn behind "m_ulAddr this" ptr u] obtain ops
      where ops: "issued (snd (call_return nat_fn behind (m_ulAddr this) ptr u)) = issued u @ ops"
        and err: "\<forall>e. fst (call_return nat_fn behind (m_ulAddr this) ptr u) = Inl e \<longrightarrow> ops = []"
      by (elim exE conjE)
    have "issued (snd (CFunction_call nat_fn behind this args st))
            = issued st @ [DcReset, DcMode ?m] @ map DcArg as @ ops"
      by (simp only: call ops u append_assoc)
    moreover have "\<forall>e. fst (CFunction_call nat_fn behind this args st) = Inl e \<longrightarrow> ops = []"
      using err by (simp only: call)
    ultimately show ?thesis by (intro exI [of _ as] exI [of _ ops] conjI)
  next
    case False
    have "snd (CFunction_call nat_fn behind this args st) = u"
    proof (cases r)
      case (Inl e)
      with assms r show ?thesis by (simp add: CFunction_call_def IsValid_def)
    next
      case (Inr t)
      obtain ch ptr pos where t: "t = (ch, ptr, pos)" by (cases t)
      with False Inr have "pos \<noteq> length args \<or> ch = NUL" by simp
      then show ?thesis
        using assms by (auto simp add: CFunction_call_def IsValid_def r Inr t)
    qed
    with u have "issued (snd (CFunction_call nat_fn behind this args st))
            = issued st @ [DcReset, DcMode ?m] @ map DcArg as @ []" by simp
    moreover have "\<forall>e. fst (CFunction_call nat_fn behind this args st) = Inl e \<longrightarrow> [] = ([] :: vmop list)"
      by simp
    ultimately show ?thesis by (intro exI [of _ as] exI [of _ "[]"] conjI)
  qed
qed

text \<open>
  Whenever an invocation raises, the operations it issued on the call VM contain no
  invocation. A dispatch that follows on a callable with a non-zero address begins with a
  reset, and its result and the VM it leaves are the same as from any other earlier state
  \<open>st0\<close> of the VM: what the failed dispatch left behind has no effect.
\<close>

lemma failed_call_invokes_nothing:
  assumes "CFunction_call nat_fn behind this args st = (Inl e, st')"
  shows "(\<exists>ops. issued st' = issued st @ ops \<and> (\<forall>k addr. DcCall k addr \<notin> set ops))
       \<and> (\<forall>other args2. m_ulAddr other \<noteq> 0 \<longrightarrow>
             (\<exists>ops2. issued (snd (CFunction_call nat_fn behind other args2 st'))
                        = issued st' @ DcReset # ops2)
             \<and> fst (CFunction_call nat_fn behind other args2 st')
                 = fst (CFunction_call nat_fn behind other args2 st0)
             \<and> g_pCallVM (snd (CFunction_call nat_fn behind other args2 st'))
                 = g_pCallVM (snd (CFunction_call nat_fn behind other args2 st0)))"
proof (intro conjI allI impI)
  show "\<exists>ops. issued st' = issued st @ ops \<and> (\<forall>k addr. DcCall k addr \<notin> set ops)"
  proof (cases "m_ulAddr this = 0")
    case True
    with assms(1) have "st' = st" by (simp add: CFunction_call_def IsValid_def)
    then have "issued st' = issued st @ [] \<and> (\<forall>k addr. DcCall k addr \<notin> set [])" by simp
    then show ?thesis by (rule exI)
  next
    case False
    from call_issued [OF False, of nat_fn behind args st] obtain as ops
      where iss: "issued (snd (CFunction_call nat_fn behind this args st))
               = issued st @ [DcReset, DcMode (GetDynCallConvention (m_eConv this))]
                   @ map DcArg as @ ops"
        and err: "\<forall>e. fst (CFunction_call nat_fn behind this args st) = Inl e \<longrightarrow> ops = []"
      by (elim exE conjE)
    from err assms(1) have "ops = []" by simp
    with iss assms(1)
    have "issued st' = issued st @ ([DcReset, DcMode (GetDynCallConvention (m_eConv this))]
               @ map DcArg as)
          \<and> (\<forall>k addr. DcCall k addr
                \<notin> set ([DcReset, DcMode (GetDynCallConvention (m_eConv this))] @ map DcArg as))"
      by auto
    then show ?thesis by (rule exI)
  qed
next
  fix other :: CFunction and args2
  assume valid: "m_ulAddr other \<noteq> 0"
  from call_issued [OF valid, of nat_fn behind args2 st'] obtain as ops
    where "issued (snd (CFunction_call nat_fn behind other args2 st'))
           = issued st' @ [DcReset, DcMode (GetDynCallConvention (m_eConv other))]
               @ map DcArg as @ ops"
    by (elim exE conjE)
  then show "\<exists>ops2. issued (snd (CFunction_call nat_fn behind other args2 st'))
                        = issued st' @ DcReset # ops2" by simp
  from call_vm [OF valid, of nat_fn behind args2 st' st0]
  show "fst (CFunction_call nat_fn behind other args2 st') = fst (CFunction_call nat_fn behind other args2 st0)"
    and "g_pCallVM (snd (CFunction_call nat_fn behind other args2 st'))
           = g_pCallVM (snd (CFunction_call nat_fn behind other args2 st0))"
    by simp_all
qed

lemma failed_call_invokes_nothing_example:
  "CFunction_call (\<lambda>vm k a. 42) (CHR ''i'')
     \<lparr>m_ulAddr = 0x1000, m_eConv = CONV_CDECL, m_szParams = ''iq)i''\<rparr> [VInt 1, VInt 2]
     \<lparr>g_pCallVM = \<lparr>vm_mode = DC_CALL_C_DEFAULT, vm_args = []\<rparr>, issued = []\<rparr>
   = (Inl UnsupportedParameterTypeError,
      \<lparr>g_pCallVM = \<lparr>vm_mode = DC_CALL_C_DEFAULT, vm_args = [ArgInt 1]\<rparr>,
       issued = [DcReset, DcMode DC_CALL_C_DEFAULT, DcArg (ArgInt 1)]\<rparr>)
   \<and> (\<exists>ops. [DcReset, DcMode DC_CALL_C_DEFAULT, DcArg (ArgInt 1)] = [] @ ops
          \<and> (\<forall>k addr. DcCall k addr \<notin> set ops))
   \<and> fst (CFunction_call (\<lambda>vm k a. 42) (CHR ''i'')
            \<lparr>m_ulAddr = 0x2000, m_eConv = CONV_STDCALL, m_szParams = ''i)i''\<rparr> [VInt 5]
            \<lparr>g_pCallVM = \<lparr>vm_mode = DC_CALL_C_DEFAULT, vm_args = [ArgInt 1]\<rparr>,
             issued = [DcReset, DcMode DC_CALL_C_DEFAULT, DcArg (ArgInt 1)]\<rparr>)
     = fst (CFunction_call (\<lambda>vm k a. 42) (CHR ''i'')
            \<lparr>m_ulAddr = 0x2000, m_eConv = CONV_STDCALL, m_szParams = ''i)i''\<rparr> [VInt 5]
            \<lparr>g_pCallVM = \<lparr>vm_mode = DC_CALL_C_DEFAULT, vm_args = []\<rparr>, issued = []\<rparr>)
   \<and> g_pCallVM (snd (CFunction_call (\<lambda>vm k a. 42) (CHR ''i'')
            \<lparr>m_ulAddr = 0x2000, m_eConv = CONV_STDCALL, m_szParams = ''i)i''\<rparr> [VInt 5]
            \<lparr>g_pCallVM = \<lparr>vm_mode = DC_CALL_C_DEFAULT, vm_args = [ArgInt 1]\<rparr>,
             issued = [DcReset, DcMode DC_CALL_C_DEFAULT, DcArg (ArgInt 1)]\<rparr>))
     = \<lparr>vm_mode = DC_CALL_C_X86_WIN32_STD, vm_args = [ArgInt 5]\<rparr>"
proof -
  let ?st = "\<lparr>g_pCallVM = \<lparr>vm_mode = DC_CALL_C_DEFAULT, vm_args = []\<rparr>, issued = []\<rparr>"
  let ?st' = "\<lparr>g_pCallVM = \<lparr>vm_mode = DC_CALL_C_DEFAULT, vm_args = [ArgInt 1]\<rparr>,
              issued = [DcReset, DcMode DC_CALL_C_DEFAULT, DcArg (ArgInt 1)]\<rparr>"
  let ?other = "\<lparr>m_ulAddr = 0x2000, m_eConv = CONV_STDCALL, m_szParams = ''i)i''\<rparr>"
  have failed: "CFunction_call (\<lambda>vm k a. 42) (CHR ''i'')
      \<lparr>m_ulAddr = 0x1000, m_eConv = CONV_CDECL, m_szParams = ''iq)i''\<rparr> [VInt 1, VInt 2] ?st
    = (Inl UnsupportedParameterTypeError, ?st')"
    by (simp add: call_eval)
  have valid: "m_ulAddr ?other \<noteq> 0"
    by simp
  have vm: "g_pCallVM (snd (CFunction_call (\<lambda>vm k a. 42) (CHR ''i'') ?other [VInt 5] ?st))
              = \<lparr>vm_mode = DC_CALL_C_X86_WIN32_STD, vm_args = [ArgInt 5]\<rparr>"
    by (simp add: call_eval)
  note inst = failed_call_invokes_nothing [OF failed,
    of "\<lparr>g_pCallVM = \<lparr>vm_mode = DC_CALL_C_DEFAULT, vm_args = []\<rparr>, issued = []\<rparr>"]
  from inst have ops: "\<exists>ops. issued ?st' = issued ?st @ ops \<and> (\<forall>k addr. DcCall k addr \<notin> set ops)"
    by (rule conjunct1)
  from inst have later: "\<forall>other args2. m_ulAddr other \<noteq> 0 \<longrightarrow>
             (\<exists>ops2. issued (snd (CFunction_call (\<lambda>vm k a. 42) (CHR ''i'') other args2 ?st'))
                        = issued ?st' @ DcReset # ops2)
             \<and> fst (CFunction_call (\<lambda>vm k a. 42) (CHR ''i'') other args2 ?st')
                 = fst (CFunction_call (\<lambda>vm k a. 42) (CHR ''i'') other args2 ?st)
             \<and> g_pCallVM (snd (CFunction_call (\<lambda>vm k a. 42) (CHR ''i'') other args2 ?st'))
                 = g_pCallVM (snd (CFunction_call (\<lambda>vm k a. 42) (CHR ''i'') other args2 ?st))"
    by (rule conjunct2)
  from later valid
  have "fst (CFunction_call (\<lambda>vm k a. 42) (CHR ''i'') ?other [VInt 5] ?st')
          = fst (CFunction_call (\<lambda>vm k a. 42) (CHR ''i'') ?other [VInt 5] ?st)"
    and "g_pCallVM (snd (CFunction_call (\<lambda>vm k a. 42) (CHR ''i'') ?other [VInt 5] ?st'))
          = g_pCallVM (snd (CFunction_call (\<lambda>vm k a. 42) (CHR ''i'') ?other [VInt 5] ?st))"
    by blast+
  with failed ops vm show ?thesis
    by simp
qed

text \<open>
  The causes of failure the dispatcher detects, each with the exception it raises and the
  operations issued up to it (none of them an invocation), for a callable with a non-zero
  address and arguments that match the parameter kinds: a signature that ends without a
  delimiter, and a delimiter followed by no return kind or by a character that is no
  return kind.
\<close>

lemma scan_params_marshalled_end:
  assumes "marshal_args kinds args' = Some as"
  shows "scan_params kinds (seen @ args') (length seen) st
           = (Inr (NUL, [], length seen + length kinds), foldl (\<lambda>s a. dcArg a s) st as)"
  using assms
proof (induction kinds args' arbitrary: as seen st rule: marshal_args.induct)
  case 1
  then show ?case by simp
next
  case (2 kind kinds arg args)
  from "2.prems" obtain a as' where a: "native_arg kind arg = Some a"
    and as': "marshal_args kinds args = Some as'" and as: "as = a # as'"
    by (auto split: option.splits)
  have "scan_params kinds ((seen @ [arg]) @ args) (length (seen @ [arg])) (dcArg a st)
        = (Inr (NUL, [], length (seen @ [arg]) + length kinds),
           foldl (\<lambda>s a. dcArg a s) (dcArg a st) as')"
    by (rule "2.IH" [OF a as'])
  with a as show ?case
    by (simp add: native_arg_push)
qed simp_all

lemma call_without_delimiter:
  assumes "m_ulAddr this \<noteq> 0"
    and "m_szParams this = kinds"
    and "marshal_args kinds args = Some as"
  shows "CFunction_call nat_fn behind this args st =
           (Inl MalformedSignatureError,
            \<lparr>g_pCallVM = \<lparr>vm_mode = GetDynCallConvention (m_eConv this), vm_args = as\<rparr>,
             issued = issued st @ [DcReset, DcMode (GetDynCallConvention (m_eConv this))]
                        @ map DcArg as\<rparr>)"
proof -
  let ?st2 = "dcMode (GetDynCallConvention (m_eConv this)) (dcReset st)"
  have len: "length args = length kinds"
    using assms(3) by (induction kinds args arbitrary: as rule: marshal_args.induct)
      (auto split: option.splits)
  have "scan_params (m_szParams this) args 0 ?st2
          = (Inr (NUL, [], length kinds), foldl (\<lambda>s a. dcArg a s) ?st2 as)"
    using scan_params_marshalled_end [OF assms(3), of "[]" ?st2] assms(2) by simp
  then show ?thesis
    using assms(1) len
    by (simp add: CFunction_call_def IsValid_def vm_foldl_dcArg issued_foldl_dcArg
          dcMode_def dcReset_def)
qed

lemma call_unknown_return_kind:
  assumes "m_ulAddr this \<noteq> 0"
    and "m_szParams this = kinds @ CHR '')'' # rest"
    and "marshal_args kinds args = Some as"
    and "deref rest \<notin> set return_kinds"
  shows "CFunction_call nat_fn behind this args st =
           (Inl UnsupportedReturnTypeError,
            \<lparr>g_pCallVM = \<lparr>vm_mode = GetDynCallConvention (m_eConv this), vm_args = as\<rparr>,
             issued = issued st @ [DcReset, DcMode (GetDynCallConvention (m_eConv this))]
                        @ map DcArg as\<rparr>)"
proof -
  let ?st2 = "dcMode (GetDynCallConvention (m_eConv this)) (dcReset st)"
  have len: "length args = length kinds"
    using assms(3) by (induction kinds args arbitrary: as rule: marshal_args.induct)
      (auto split: option.splits)
  have scan: "scan_params (m_szParams this) args 0 ?st2
          = (Inr (CHR '')'', CHR '')'' # rest, length kinds), foldl (\<lambda>s a. dcArg a s) ?st2 as)"
    using scan_params_marshalled [OF assms(3), of rest "[]" ?st2] assms(2) by simp
  have ret: "call_return nat_fn behind addr (CHR '')'' # rest) s = (Inl UnsupportedReturnTypeError, s)"
    for addr s
    using assms(4)
    by (simp add: call_return_def deref_incr_def deref_def [of "CHR '')'' # rest"] NUL_def
          return_kinds_def)
  have "CFunction_call nat_fn behind this args st
          = (Inl UnsupportedReturnTypeError, foldl (\<lambda>s a. dcArg a s) ?st2 as)"
    using assms(1) len by (simp add: CFunction_call_def IsValid_def scan ret NUL_def)
  then show ?thesis
    by (simp add: vm_foldl_dcArg issued_foldl_dcArg dcMode_def dcReset_def)
qed

lemma call_unknown_return_kind_example:
  "CFunction_call (\<lambda>vm k a. 42) (CHR ''i'')
     \<lparr>m_ulAddr = 0x1000, m_eConv = CONV_CDECL, m_szParams = ''i)q''\<rparr> [VInt 1]
     \<lparr>g_pCallVM = \<lparr>vm_mode = DC_CALL_C_DEFAULT, vm_args = []\<rparr>, issued = []\<rparr>
   = (Inl UnsupportedReturnTypeError,
      \<lparr>g_pCallVM = \<lparr>vm_mode = DC_CALL_C_DEFAULT, vm_args = [ArgInt 1]\<rparr>,
       issued = [DcReset, DcMode DC_CALL_C_DEFAULT, DcArg (ArgInt 1)]\<rparr>)
   \<and> CFunction_call (\<lambda>vm k a. 42) (CHR ''i'')
     \<lparr>m_ulAddr = 0x1000, m_eConv = CONV_CDECL, m_szParams = ''i)''\<rparr> [VInt 1]
     \<lparr>g_pCallVM = \<lparr>vm_mode = DC_CALL_C_DEFAULT, vm_args = []\<rparr>, issued = []\<rparr>
   = (Inl UnsupportedReturnTypeError,
      \<lparr>g_pCallVM = \<lparr>vm_mode = DC_CALL_C_DEFAULT, vm_args = [ArgInt 1]\<rparr>,
       issued = [DcReset, DcMode DC_CALL_C_DEFAULT, DcArg (ArgInt 1)]\<rparr>)
   \<and> CFunction_call (\<lambda>vm k a. 42) (CHR ''i'')
     \<lparr>m_ulAddr = 0x1000, m_eConv = CONV_CDECL, m_szParams = ''i''\<rparr> [VInt 1]
     \<lparr>g_pCallVM = \<lparr>vm_mode = DC_CALL_C_DEFAULT, vm_args = []\<rparr>, issued = []\<rparr>
   = (Inl MalformedSignatureError,
      \<lparr>g_pCallVM = \<lparr>vm_mode = DC_CALL_C_DEFAULT, vm_args = [ArgInt 1]\<rparr>,
       issued = [DcReset, DcMode DC_CALL_C_DEFAULT, DcArg (ArgInt 1)]\<rparr>)"
  by (simp add: call_eval)

text \<open>
  C2. The claim counts a missing return-kind character among the failures that raise
  before the invoke step. The check of line 211 tests \<^verbatim>\<open>ch\<close>, which is still the Void
  marker after the \<^verbatim>\<open>break\<close> of lines 179-183, so a signature that ends right after a Void
  marker passes it although no return kind follows. Line 214 then dispatches on the byte
  behind the terminator, and when that byte is a return-kind character the target is
  invoked: with the signature \<^verbatim>\<open>"v"\<close>, no argument and \<^verbatim>\<open>i\<close> behind the terminator, the
  Int entry point is called at the target address and its value returned, and likewise
  with \<^verbatim>\<open>"iv"\<close> and one int argument. With a byte that is no return kind the same
  signatures raise the error of the unknown return type, not the one of line 212.
\<close>

theorem call_void_last_invokes_target:
  "CFunction_call nat_fn (CHR ''i'')
     \<lparr>m_ulAddr = 0x1000, m_eConv = CONV_CDECL, m_szParams = ''v''\<rparr> [] st
   = (Inr (VInt (ucast (nat_fn \<lparr>vm_mode = DC_CALL_C_DEFAULT, vm_args = []\<rparr> CallInt 0x1000))),
      \<lparr>g_pCallVM = \<lparr>vm_mode = DC_CALL_C_DEFAULT, vm_args = []\<rparr>,
       issued = issued st @ [DcReset, DcMode DC_CALL_C_DEFAULT, DcCall CallInt 0x1000]\<rparr>)
   \<and> CFunction_call nat_fn (CHR ''i'')
     \<lparr>m_ulAddr = 0x1000, m_eConv = CONV_CDECL, m_szParams = ''iv''\<rparr> [VInt a] st
   = (Inr (VInt (ucast (nat_fn \<lparr>vm_mode = DC_CALL_C_DEFAULT, vm_args = [ArgInt a]\<rparr>
                          CallInt 0x1000))),
      \<lparr>g_pCallVM = \<lparr>vm_mode = DC_CALL_C_DEFAULT, vm_args = [ArgInt a]\<rparr>,
       issued = issued st @ [DcReset, DcMode DC_CALL_C_DEFAULT, DcArg (ArgInt a),
                             DcCall CallInt 0x1000]\<rparr>)
   \<and> fst (CFunction_call nat_fn (CHR ''q'')
     \<lparr>m_ulAddr = 0x1000, m_eConv = CONV_CDECL, m_szParams = ''v''\<rparr> [] st)
   = Inl UnsupportedReturnTypeError"
  by (simp add: call_eval)

section \<open>The Void marker\<close>

lemma scan_params_stop:
  assumes "NUL \<notin> set pre" and "CHR '')'' \<notin> set pre" and "DC_SIGCHAR_VOID \<notin> set pre"
  shows "scan_params (pre @ CHR '')'' # rest) args pos st =
           (case scan_params pre args pos st of
              (Inl e, st') \<Rightarrow> (Inl e, st')
            | (Inr (ch, ptr, pos'), st') \<Rightarrow> (Inr (CHR '')'', CHR '')'' # rest, pos'), st'))"
    and "scan_params (pre @ DC_SIGCHAR_VOID # rest) args pos st =
           (case scan_params pre args pos st of
              (Inl e, st') \<Rightarrow> (Inl e, st')
            | (Inr (ch, ptr, pos'), st') \<Rightarrow> (Inr (DC_SIGCHAR_VOID, rest, pos'), st'))"
  using assms
  by (induction pre arbitrary: pos st) (auto simp add: sigchar_defs split: sum.splits)

lemma call_return_errors:
  "fst (call_return nat_fn behind addr ptr st) \<noteq> Inl ArgumentCountError"
  "fst (call_return nat_fn behind addr ptr st) \<noteq> Inl IndexError"
  by (simp_all add: call_return_def Let_def dcCall_defs dcCall_def)

lemma call_return_keeps_vm:
  "g_pCallVM (snd (call_return nat_fn behind addr ptr st)) = g_pCallVM st"
  by (simp add: call_return_def Let_def dcCall_defs dcCall_def)

text \<open>
  C5. Let \<open>pre\<close> hold no terminator, no delimiter and no Void marker. The scan works
  through \<open>pre\<close> from left to right and then stops: on a delimiter with \<^verbatim>\<open>ptr\<close> left on
  it, on a Void marker with \<^verbatim>\<open>ptr\<close> stepped over it; the characters after the stop are
  not read by the scan. A Void marker is never pushed as a parameter: wherever it stands
  among the parameter characters it ends the list as the delimiter does, and the call
  with the signature \<open>pre\<close>, Void marker, \<open>d\<close>, \<open>rest\<close> is the call with the signature
  \<open>pre\<close>, delimiter, \<open>rest\<close>, whatever the character \<open>d\<close> after the marker is. With a
  leading Void marker an empty argument list passes the count check (the invocation does
  not fail with ArgumentCountError, nor with IndexError) and no argument is on the VM; a
  non-empty argument list fails with ArgumentCountError: a leading Void means zero
  parameters.
\<close>

theorem void_ends_parameter_scan:
  assumes "NUL \<notin> set pre" and "CHR '')'' \<notin> set pre" and "DC_SIGCHAR_VOID \<notin> set pre"
    and "d \<noteq> NUL" and "m_ulAddr this \<noteq> 0"
  shows "scan_params (pre @ CHR '')'' # rest) args pos st =
           (case scan_params pre args pos st of
              (Inl e, st') \<Rightarrow> (Inl e, st')
            | (Inr (ch, ptr, pos'), st') \<Rightarrow> (Inr (CHR '')'', CHR '')'' # rest, pos'), st'))
       \<and> scan_params (pre @ DC_SIGCHAR_VOID # rest) args pos st =
           (case scan_params pre args pos st of
              (Inl e, st') \<Rightarrow> (Inl e, st')
            | (Inr (ch, ptr, pos'), st') \<Rightarrow> (Inr (DC_SIGCHAR_VOID, rest, pos'), st'))
       \<and> CFunction_call nat_fn behind (this\<lparr>m_szParams := pre @ DC_SIGCHAR_VOID # d # rest\<rparr>) args st
           = CFunction_call nat_fn behind (this\<lparr>m_szParams := pre @ CHR '')'' # rest\<rparr>) args st
       \<and> fst (CFunction_call nat_fn behind (this\<lparr>m_szParams := DC_SIGCHAR_VOID # rest\<rparr>) [] st)
           \<noteq> Inl ArgumentCountError
       \<and> fst (CFunction_call nat_fn behind (this\<lparr>m_szParams := DC_SIGCHAR_VOID # rest\<rparr>) [] st)
           \<noteq> Inl IndexError
       \<and> vm_args (g_pCallVM
           (snd (CFunction_call nat_fn behind (this\<lparr>m_szParams := DC_SIGCHAR_VOID # rest\<rparr>) [] st))) = []
       \<and> fst (CFunction_call nat_fn behind (this\<lparr>m_szParams := DC_SIGCHAR_VOID # rest\<rparr>) (arg # args) st)
           = Inl ArgumentCountError"
proof (intro conjI)
  note stop = scan_params_stop [OF assms(1-3)]
  show "scan_params (pre @ CHR '')'' # rest) args pos st =
           (case scan_params pre args pos st of
              (Inl e, st') \<Rightarrow> (Inl e, st')
            | (Inr (ch, ptr, pos'), st') \<Rightarrow> (Inr (CHR '')'', CHR '')'' # rest, pos'), st'))"
    by (rule stop(1))
  show "scan_params (pre @ DC_SIGCHAR_VOID # rest) args pos st =
           (case scan_params pre args pos st of
              (Inl e, st') \<Rightarrow> (Inl e, st')
            | (Inr (ch, ptr, pos'), st') \<Rightarrow> (Inr (DC_SIGCHAR_VOID, rest, pos'), st'))"
    by (rule stop(2))
  have ret: "call_return nat_fn behind addr (d # rest) s = call_return nat_fn behind addr (CHR '')'' # rest) s"
    for addr s
    using assms(4) by (simp add: call_return_def deref_incr_def deref_def NUL_def)
  show "CFunction_call nat_fn behind (this\<lparr>m_szParams := pre @ DC_SIGCHAR_VOID # d # rest\<rparr>) args st
           = CFunction_call nat_fn behind (this\<lparr>m_szParams := pre @ CHR '')'' # rest\<rparr>) args st"
  proof -
    let ?t = "dcMode (GetDynCallConvention (m_eConv this)) (dcReset st)"
    obtain r u where r: "scan_params pre args 0 ?t = (r, u)"
      by (cases "scan_params pre args 0 ?t")
    show ?thesis
    proof (cases r)
      case (Inl e)
      then show ?thesis
        by (simp add: CFunction_call_def IsValid_def stop r)
    next
      case (Inr t)
      obtain ch ptr pos' where "t = (ch, ptr, pos')" by (cases t)
      moreover have "DC_SIGCHAR_VOID \<noteq> NUL" and "CHR '')'' \<noteq> NUL"
        by (simp_all add: sigchar_defs)
      ultimately show ?thesis
        using Inr by (simp add: CFunction_call_def IsValid_def stop r ret)
    qed
  qed
  show "fst (CFunction_call nat_fn behind (this\<lparr>m_szParams := DC_SIGCHAR_VOID # rest\<rparr>) [] st)
           \<noteq> Inl ArgumentCountError"
    and "fst (CFunction_call nat_fn behind (this\<lparr>m_szParams := DC_SIGCHAR_VOID # rest\<rparr>) [] st)
           \<noteq> Inl IndexError"
    using assms(5) by (simp_all add: CFunction_call_def IsValid_def call_return_errors sigchar_defs)
  show "vm_args (g_pCallVM
           (snd (CFunction_call nat_fn behind (this\<lparr>m_szParams := DC_SIGCHAR_VOID # rest\<rparr>) [] st))) = []"
    using assms(5)
    by (simp add: CFunction_call_def IsValid_def call_return_keeps_vm sigchar_defs
          dcMode_def dcReset_def)
  show "fst (CFunction_call nat_fn behind (this\<lparr>m_szParams := DC_SIGCHAR_VOID # rest\<rparr>) (arg # args) st)
           = Inl ArgumentCountError"
    using assms(5) by (simp add: CFunction_call_def IsValid_def sigchar_defs)
qed

theorem void_ends_parameter_scan_witness:
  "CFunction_call (\<lambda>vm k a. 42) (CHR ''i'')
     \<lparr>m_ulAddr = 0x1000, m_eConv = CONV_CDECL, m_szParams = ''iv)i''\<rparr> [VInt 7]
     \<lparr>g_pCallVM = \<lparr>vm_mode = DC_CALL_C_DEFAULT, vm_args = []\<rparr>, issued = []\<rparr>
   = CFunction_call (\<lambda>vm k a. 42) (CHR ''i'')
     \<lparr>m_ulAddr = 0x1000, m_eConv = CONV_CDECL, m_szParams = ''i)i''\<rparr> [VInt 7]
     \<lparr>g_pCallVM = \<lparr>vm_mode = DC_CALL_C_DEFAULT, vm_args = []\<rparr>, issued = []\<rparr>
   \<and> CFunction_call (\<lambda>vm k a. 42) (CHR ''i'')
     \<lparr>m_ulAddr = 0x1000, m_eConv = CONV_CDECL, m_szParams = ''iv)i''\<rparr> [VInt 7]
     \<lparr>g_pCallVM = \<lparr>vm_mode = DC_CALL_C_DEFAULT, vm_args = []\<rparr>, issued = []\<rparr>
   = (Inr (VInt 42),
      \<lparr>g_pCallVM = \<lparr>vm_mode = DC_CALL_C_DEFAULT, vm_args = [ArgInt 7]\<rparr>,
       issued = [DcReset, DcMode DC_CALL_C_DEFAULT, DcArg (ArgInt 7), DcCall CallInt 0x1000]\<rparr>)
   \<and> CFunction_call (\<lambda>vm k a. 42) (CHR ''i'')
     \<lparr>m_ulAddr = 0x1000, m_eConv = CONV_CDECL, m_szParams = ''v)i''\<rparr> []
     \<lparr>g_pCallVM = \<lparr>vm_mode = DC_CALL_C_DEFAULT, vm_args = []\<rparr>, issued = []\<rparr>
   = (Inr (VInt 42),
      \<lparr>g_pCallVM = \<lparr>vm_mode = DC_CALL_C_DEFAULT, vm_args = []\<rparr>,
       issued = [DcReset, DcMode DC_CALL_C_DEFAULT, DcCall CallInt 0x1000]\<rparr>)
   \<and> fst (CFunction_call (\<lambda>vm k a. 42) (CHR ''i'')
     \<lparr>m_ulAddr = 0x1000, m_eConv = CONV_CDECL, m_szParams = ''v)i''\<rparr> [VInt 7]
     \<lparr>g_pCallVM = \<lparr>vm_mode = DC_CALL_C_DEFAULT, vm_args = []\<rparr>, issued = []\<rparr>)
   = Inl ArgumentCountError"
proof -
  have pre: "NUL \<notin> set ''i''" "CHR '')'' \<notin> set ''i''" "DC_SIGCHAR_VOID \<notin> set ''i''"
    by (simp_all add: sigchar_defs)
  have d: "CHR '')'' \<noteq> NUL"
    by (simp add: NUL_def)
  have valid: "m_ulAddr \<lparr>m_ulAddr = 0x1000, m_eConv = CONV_CDECL, m_szParams = []\<rparr> \<noteq> 0"
    by simp
  show ?thesis
    using
      void_ends_parameter_scan [OF pre d valid,
        where rest = "''i''" and args = "[VInt 7]" and pos = 0 and nat_fn = "\<lambda>vm k a. 42" and behind = "CHR ''i''"
          and st = "\<lparr>g_pCallVM = \<lparr>vm_mode = DC_CALL_C_DEFAULT, vm_args = []\<rparr>, issued = []\<rparr>"
          and arg = "VInt 7"]
      void_ends_parameter_scan [OF pre d valid,
        where rest = "'')i''" and args = "[]" and pos = 0 and nat_fn = "\<lambda>vm k a. 42" and behind = "CHR ''i''"
          and st = "\<lparr>g_pCallVM = \<lparr>vm_mode = DC_CALL_C_DEFAULT, vm_args = []\<rparr>, issued = []\<rparr>"
          and arg = "VInt 7"]
    by (simp add: call_eval)
qed

section \<open>The trampoline bridge\<close>

text \<open>
  C7 (as amended). \<^verbatim>\<open>CallTrampoline\<close> on a callable with a non-zero address: when the hook
  manager has no hook record for the address it fails with NotHookedError, and nothing is
  issued on the call VM; when it has one, the result is that of invoking the callable
  built from the record's trampoline address and the same convention and signature.
\<close>

theorem CallTrampoline_valid:
  assumes "m_ulAddr this \<noteq> 0"
  shows "CallTrampoline nat_fn behind g_pHookMngr this args st =
           (case FindHook g_pHookMngr (m_ulAddr this) of
              None \<Rightarrow> (Inl NotHookedError, st)
            | Some pHook \<Rightarrow>
                CFunction_call nat_fn behind
                  \<lparr>m_ulAddr = m_pTrampoline pHook, m_eConv = m_eConv this,
                   m_szParams = m_szParams this\<rparr> args st)"
  using assms by (simp add: CallTrampoline_def IsValid_def)

theorem CallTrampoline_valid_witness:
  "CallTrampoline (\<lambda>vm k a. 42) (CHR ''i'') [0x1000 \<mapsto> \<lparr>m_pTrampoline = 0x5000\<rparr>]
     \<lparr>m_ulAddr = 0x3000, m_eConv = CONV_CDECL, m_szParams = '')i''\<rparr> []
     \<lparr>g_pCallVM = \<lparr>vm_mode = DC_CALL_C_DEFAULT, vm_args = []\<rparr>, issued = []\<rparr>
   = (Inl NotHookedError,
      \<lparr>g_pCallVM = \<lparr>vm_mode = DC_CALL_C_DEFAULT, vm_args = []\<rparr>, issued = []\<rparr>)
   \<and> CallTrampoline (\<lambda>vm k a. 42) (CHR ''i'') [0x1000 \<mapsto> \<lparr>m_pTrampoline = 0x5000\<rparr>]
     \<lparr>m_ulAddr = 0x1000, m_eConv = CONV_CDECL, m_szParams = '')i''\<rparr> []
     \<lparr>g_pCallVM = \<lparr>vm_mode = DC_CALL_C_DEFAULT, vm_args = []\<rparr>, issued = []\<rparr>
   = (Inr (VInt 42),
      \<lparr>g_pCallVM = \<lparr>vm_mode = DC_CALL_C_DEFAULT, vm_args = []\<rparr>,
       issued = [DcReset, DcMode DC_CALL_C_DEFAULT, DcCall CallInt 0x5000]\<rparr>)"
  using
    CallTrampoline_valid
      [of "\<lparr>m_ulAddr = 0x3000, m_eConv = CONV_CDECL, m_szParams = '')i''\<rparr>" "\<lambda>vm k a. 42" "CHR ''i''"
          "[0x1000 \<mapsto> \<lparr>m_pTrampoline = 0x5000\<rparr>]" "[]"
          "\<lparr>g_pCallVM = \<lparr>vm_mode = DC_CALL_C_DEFAULT, vm_args = []\<rparr>, issued = []\<rparr>"]
    CallTrampoline_valid
      [of "\<lparr>m_ulAddr = 0x1000, m_eConv = CONV_CDECL, m_szParams = '')i''\<rparr>" "\<lambda>vm k a. 42" "CHR ''i''"
          "[0x1000 \<mapsto> \<lparr>m_pTrampoline = 0x5000\<rparr>]" "[]"
          "\<lparr>g_pCallVM = \<lparr>vm_mode = DC_CALL_C_DEFAULT, vm_args = []\<rparr>, issued = []\<rparr>"]
  by (simp add: FindHook_def call_eval)

text \<open>
  The claim as written covers every target address without a hook record. Address 0 has
  none, and there the null check of line 239 raises NullPointerError before the lookup.
\<close>

theorem CallTrampoline_null_counterexample:
  "FindHook Map.empty 0 = None
   \<and> CallTrampoline (\<lambda>vm k a. 42) (CHR ''i'') Map.empty
       \<lparr>m_ulAddr = 0, m_eConv = CONV_CDECL, m_szParams = '')i''\<rparr> []
       \<lparr>g_pCallVM = \<lparr>vm_mode = DC_CALL_C_DEFAULT, vm_args = []\<rparr>, issued = []\<rparr>
     = (Inl NullPointerError,
        \<lparr>g_pCallVM = \<lparr>vm_mode = DC_CALL_C_DEFAULT, vm_args = []\<rparr>, issued = []\<rparr>)"
  by (simp add: FindHook_def CallTrampoline_def IsValid_def)

text \<open>On address 0 the null check comes first, whatever the hook manager holds.\<close>

lemma CallTrampoline_null:
  "m_ulAddr this = 0 \<Longrightarrow>
     CallTrampoline nat_fn behind g_pHookMngr this args st = (Inl NullPointerError, st)"
  by (simp add: CallTrampoline_def IsValid_def)

section \<open>Reading back what was written\<close>

lemma load32_store32: "load32 (store32 mem a v) a = v"
proof -
  have "ucast (ucast v :: byte) OR push_bit 8 (ucast (ucast (drop_bit 8 v) :: byte))
          OR push_bit 16 (ucast (ucast (drop_bit 16 v) :: byte))
          OR push_bit 24 (ucast (ucast (drop_bit 24 v) :: byte)) = v" (is "?l = _")
  proof (rule bit_word_eqI)
    fix n assume "n < LENGTH(32)"
    then show "bit ?l n = bit v n"
      by (cases "n < 8"; cases "n < 16"; cases "n < 24") (auto simp add: bit_simps)
  qed
  then show ?thesis
    by (simp add: load32_def store32_def)
qed

lemma write_bytes_outside:
  "(\<And>i. i < length bs \<Longrightarrow> a + of_nat i \<noteq> x) \<Longrightarrow> write_bytes mem a bs x = mem x"
proof (induction bs arbitrary: mem a)
  case Nil
  then show ?case by simp
next
  case (Cons b bs)
  have "write_bytes (mem(a := b)) (a + 1) bs x = (mem(a := b)) x"
  proof (rule Cons.IH)
    fix i assume "i < length bs"
    then have "a + of_nat (Suc i) \<noteq> x" using Cons.prems [of "Suc i"] by simp
    then show "a + 1 + of_nat i \<noteq> x" by (simp add: add.assoc)
  qed
  moreover have "a \<noteq> x" using Cons.prems [of 0] by simp
  ultimately show ?case by simp
qed

lemma write_bytes_at:
  "length bs \<le> 2 ^ 32 \<Longrightarrow> i < length bs \<Longrightarrow> write_bytes mem a bs (a + of_nat i) = bs ! i"
proof (induction bs arbitrary: mem a i)
  case Nil
  then show ?case by simp
next
  case (Cons b bs)
  show ?case
  proof (cases i)
    case 0
    have "write_bytes (mem(a := b)) (a + 1) bs a = (mem(a := b)) a"
    proof (rule write_bytes_outside)
      fix j assume "j < length bs"
      with Cons.prems(1) have "0 < Suc j" "Suc j < 2 ^ LENGTH(32)" by simp_all
      then have "(of_nat (Suc j) :: 32 word) \<noteq> 0" by (rule of_nat_neq_0)
      then show "a + 1 + of_nat j \<noteq> a" by (simp add: add.assoc)
    qed
    with 0 show ?thesis by simp
  next
    case (Suc k)
    with Cons.prems have "write_bytes (mem(a := b)) (a + 1) bs (a + 1 + of_nat k) = bs ! k"
      by (intro Cons.IH) simp_all
    with Suc show ?thesis by (simp add: add.assoc)
  qed
qed

lemma sint_strlen:
  "n < 2 ^ 31 \<Longrightarrow> sint (word_of_nat n :: 32 word) = int n"
  by (simp add: signed_of_nat signed_take_bit_int_eq_self)

lemma strcpy_bytes:
  assumes "strlen szText < 2 ^ 31"
  shows "\<forall>i < strlen szText. strcpy dst szText mem (dst + of_nat i) = of_char (c_text szText ! i)"
    and "strcpy dst szText mem (dst + of_nat (strlen szText)) = 0"
proof -
  let ?cs = "takeWhile (\<lambda>ch. ch \<noteq> NUL) (c_text szText)"
  let ?bs = "map of_char ?cs @ [0 :: byte]"
  have len: "length ?bs \<le> 2 ^ 32"
    using assms by (simp add: strlen_def)
  have at: "i < length ?bs \<Longrightarrow> strcpy dst szText mem (dst + of_nat i) = ?bs ! i" for i
    unfolding strcpy_def by (rule write_bytes_at [OF len])
  show "\<forall>i < strlen szText. strcpy dst szText mem (dst + of_nat i) = of_char (c_text szText ! i)"
  proof (intro allI impI)
    fix i assume i: "i < strlen szText"
    then have "strcpy dst szText mem (dst + of_nat i) = ?bs ! i"
      by (intro at) (simp add: strlen_def)
    also have "\<dots> = of_char (?cs ! i)"
      using i by (simp add: strlen_def nth_append)
    also have "?cs ! i = c_text szText ! i"
      using i by (simp add: strlen_def takeWhile_nth)
    finally show "strcpy dst szText mem (dst + of_nat i) = of_char (c_text szText ! i)" .
  qed
  have "strcpy dst szText mem (dst + of_nat (strlen szText)) = ?bs ! strlen szText"
    by (intro at) (simp add: strlen_def)
  then show "strcpy dst szText mem (dst + of_nat (strlen szText)) = 0"
    by (simp add: strlen_def nth_append)
qed

section \<open>String writes\<close>

text \<open>
  C8. \<^verbatim>\<open>SetString\<close> on a pointer with a non-zero address, for a text whose length fits
  an \<^verbatim>\<open>int\<close>. The capacity is the size given, or, when none is given (\<open>iSize = 0\<close>), what
  the allocator-size query says for the address base plus offset; it is held in an
  \<^verbatim>\<open>int\<close>, hence read with \<open>sint\<close>.
  \<^item> No size given and the query yields 0: AllocationSizeUnavailableError.
  \<^item> Otherwise, the text longer than the capacity: BufferOverflowError.
  \<^item> Otherwise the write happens. With the indirection flag the slot at base plus offset
    then holds the address of the text, which is what \<^verbatim>\<open>GetString\<close> with the flag returns.
    Without it the bytes from base plus offset on are the characters of the text followed
    by the terminator, and \<^verbatim>\<open>GetString\<close> without the flag returns their address.
\<close>

theorem SetString_checked_write:
  assumes "m_ulAddr this \<noteq> 0" and "strlen szText < 2 ^ 31"
  shows "(iSize = 0 \<and> UTIL_GetSize (m_ulAddr this + iOffset) = 0 \<longrightarrow>
            SetString UTIL_GetSize this szText iSize iOffset bIsPtr mem
              = Inl AllocationSizeUnavailableError)
       \<and> (\<not> (iSize = 0 \<and> UTIL_GetSize (m_ulAddr this + iOffset) = 0)
            \<and> sint (if iSize = 0 then UTIL_GetSize (m_ulAddr this + iOffset) else iSize)
                < int (strlen szText) \<longrightarrow>
            SetString UTIL_GetSize this szText iSize iOffset bIsPtr mem = Inl BufferOverflowError)
       \<and> (\<not> (iSize = 0 \<and> UTIL_GetSize (m_ulAddr this + iOffset) = 0)
            \<and> int (strlen szText)
                \<le> sint (if iSize = 0 then UTIL_GetSize (m_ulAddr this + iOffset) else iSize) \<longrightarrow>
            (\<exists>mem'. SetString UTIL_GetSize this szText iSize iOffset bIsPtr mem = Inr mem'
               \<and> (if bIsPtr
                   then Get_ptr this iOffset mem' = c_addr szText
                     \<and> GetString this iOffset True mem' = Inr (c_addr szText)
                   else (\<forall>i < strlen szText.
                           mem' (m_ulAddr this + iOffset + of_nat i) = of_char (c_text szText ! i))
                     \<and> mem' (m_ulAddr this + iOffset + of_nat (strlen szText)) = 0
                     \<and> GetString this iOffset False mem' = Inr (m_ulAddr this + iOffset))))"
proof -
  have cast: "sint (word_of_nat (strlen szText) :: 32 word) = int (strlen szText)"
    using assms(2) by (rule sint_strlen)
  have slot: "Get_ptr this iOffset (Set_ptr this (c_addr szText) iOffset mem) = c_addr szText"
    by (simp add: Get_ptr_def Set_ptr_def load32_store32)
  show ?thesis
    using assms(1) strcpy_bytes [OF assms(2), of "m_ulAddr this + iOffset" mem] slot
    by (simp add: SetString_def GetString_def IsValid_def cast Let_def)
qed

theorem SetString_checked_write_witness:
  "SetString (\<lambda>a. 0) \<lparr>m_ulAddr = 0x1000\<rparr> \<lparr>c_addr = 0x2000, c_text = ''hey''\<rparr> 0 4 False (\<lambda>a. 0)
     = Inl AllocationSizeUnavailableError
   \<and> SetString (\<lambda>a. 2) \<lparr>m_ulAddr = 0x1000\<rparr> \<lparr>c_addr = 0x2000, c_text = ''hey''\<rparr> 0 4 False (\<lambda>a. 0)
     = Inl BufferOverflowError
   \<and> SetString (\<lambda>a. 16) \<lparr>m_ulAddr = 0x1000\<rparr> \<lparr>c_addr = 0x2000, c_text = ''hey''\<rparr> 2 4 True (\<lambda>a. 0)
     = Inl BufferOverflowError
   \<and> (case SetString (\<lambda>a. 16) \<lparr>m_ulAddr = 0x1000\<rparr> \<lparr>c_addr = 0x2000, c_text = ''hey''\<rparr> 0 4 False
              (\<lambda>a. 0) of
        Inl e \<Rightarrow> []
      | Inr mem' \<Rightarrow> map mem' [0x1004, 0x1005, 0x1006, 0x1007]) = [0x68, 0x65, 0x79, 0]
   \<and> (case SetString (\<lambda>a. 16) \<lparr>m_ulAddr = 0x1000\<rparr> \<lparr>c_addr = 0x2000, c_text = ''hey''\<rparr> 0 4 True
              (\<lambda>a. 0) of
        Inl e \<Rightarrow> None
      | Inr mem' \<Rightarrow> Some (GetString \<lparr>m_ulAddr = 0x1000\<rparr> 4 True mem')) = Some (Inr 0x2000)"
proof -
  have len: "strlen \<lparr>c_addr = 0x2000, c_text = ''hey''\<rparr> < 2 ^ 31"
    by (simp add: strlen_def NUL_def)
  have valid: "m_ulAddr \<lparr>m_ulAddr = 0x1000\<rparr> \<noteq> 0"
    by simp
  show ?thesis
    using
      SetString_checked_write [OF valid len, of 0 "\<lambda>a. 0" 4 False "\<lambda>a. 0"]
      SetString_checked_write [OF valid len, of 0 "\<lambda>a. 2" 4 False "\<lambda>a. 0"]
      SetString_checked_write [OF valid len, of 2 "\<lambda>a. 16" 4 True "\<lambda>a. 0"]
      SetString_checked_write [OF valid len, of 0 "\<lambda>a. 16" 4 False "\<lambda>a. 0"]
      SetString_checked_write [OF valid len, of 0 "\<lambda>a. 16" 4 True "\<lambda>a. 0"]
    by (simp add: SetString_def GetString_def IsValid_def strlen_def strcpy_def NUL_def
          Set_ptr_def Get_ptr_def store32_def load32_def)
qed

section \<open>Pointer writes\<close>

text \<open>
  C9. \<^verbatim>\<open>SetPtr\<close> takes an offset and does not use it: line 113 writes at
  \<^verbatim>\<open>m_ulAddr\<close>, where \<^verbatim>\<open>GetPtr\<close> (line 105) reads at \<^verbatim>\<open>m_ulAddr + iOffset\<close>. With base
  0x1000, offset 4 and the value 0xDEADBEEF on zeroed memory, the value ends up at 0x1000
  and the word at 0x1004 is still 0; for every input the result is that of offset 0.
\<close>

theorem SetPtr_offset_ignored:
  "(case SetPtr \<lparr>m_ulAddr = 0x1000\<rparr> \<lparr>m_ulAddr = 0xDEADBEEF\<rparr> 4 (\<lambda>a. 0) of
      Inl e \<Rightarrow> None
    | Inr mem' \<Rightarrow> Some (load32 mem' 0x1000, load32 mem' 0x1004))
   = Some (0xDEADBEEF, 0)
   \<and> SetPtr this ptr iOffset mem = SetPtr this ptr 0 mem"
  by (simp add: SetPtr_def IsValid_def store32_def load32_def GetAddress_def)

section \<open>Virtual functions\<close>

text \<open>
  C10. \<^verbatim>\<open>GetVirtualFunc\<close> on a pointer with a non-zero address never raises. When the
  object's vtable pointer (its first word) is null it returns a pointer with address 0;
  otherwise it returns a pointer with the address stored in the slot of the table at the
  requested index, the index being one higher on Linux when the platform-check flag is
  set.
\<close>

theorem GetVirtualFunc_slot:
  assumes "m_ulAddr this \<noteq> 0"
  shows "GetVirtualFunc linux this iIndex bPlatformCheck mem =
           (if load32 mem (m_ulAddr this) = 0 then Inr \<lparr>m_ulAddr = 0\<rparr>
            else Inr \<lparr>m_ulAddr =
                   load32 mem (load32 mem (m_ulAddr this)
                                + 4 * (if linux \<and> bPlatformCheck then iIndex + 1 else iIndex))\<rparr>)"
  using assms by (simp add: GetVirtualFunc_def IsValid_def Let_def)

theorem GetVirtualFunc_slot_witness:
  "GetVirtualFunc True \<lparr>m_ulAddr = 0x1000\<rparr> 2 True
     (store32 (store32 (\<lambda>a. 0) 0x1000 0x2000) 0x200C 0x401000) = Inr \<lparr>m_ulAddr = 0x401000\<rparr>
   \<and> GetVirtualFunc False \<lparr>m_ulAddr = 0x1000\<rparr> 3 True
     (store32 (store32 (\<lambda>a. 0) 0x1000 0x2000) 0x200C 0x401000) = Inr \<lparr>m_ulAddr = 0x401000\<rparr>
   \<and> GetVirtualFunc True \<lparr>m_ulAddr = 0x1000\<rparr> 2 True (\<lambda>a. 0) = Inr \<lparr>m_ulAddr = 0\<rparr>"
  using
    GetVirtualFunc_slot [of "\<lparr>m_ulAddr = 0x1000\<rparr>" True 2 True
      "store32 (store32 (\<lambda>a. 0) 0x1000 0x2000) 0x200C 0x401000"]
    GetVirtualFunc_slot [of "\<lparr>m_ulAddr = 0x1000\<rparr>" False 3 True
      "store32 (store32 (\<lambda>a. 0) 0x1000 0x2000) 0x200C 0x401000"]
    GetVirtualFunc_slot [of "\<lparr>m_ulAddr = 0x1000\<rparr>" True 2 True "\<lambda>a. 0"]
  by (simp add: load32_def store32_def)

end
